theory Spec2Isabelle
  imports Main "HOL-Library.Word"
begin

section \<open>The DocumentStack Go SDK: data model\<close>

text \<open>
  Go strings are byte sequences; they are modelled as \<open>string\<close> (lists of 8-bit
  characters), so \<open>length\<close> is Go's \<open>len\<close>. Go's \<open>int\<close> and \<open>int64\<close> values are
  modelled as \<open>int\<close>; where the source's arithmetic can wrap the wrap-around is written
  out.
\<close>

subsection \<open>Values of type \<open>interface{}\<close> decoded from JSON\<close>

text \<open>
  What \<open>encoding/json\<close> stores into an \<open>interface{}\<close>: \<open>nil\<close>, a bool, a number,
  a string, a slice or a map. A number is kept as its literal (the decoder turns it into
  a \<open>float64\<close>; only the failure of that conversion is modelled, see \<open>float64_overflow\<close>);
  a map is kept as the list of its members in the order of the text.
\<close>

datatype json =
    JNull
  | JBool bool
  | JNumber string
  | JString string
  | JArray "json list"
  | JObject "(string \<times> json) list"

subsection \<open>types.go\<close>

record GenerateOptions =
  Filename :: string

record 'v GenerateRequest =
  Data :: "(string \<times> 'v) list option"
  Options :: "GenerateOptions option"

record GenerateResponse =
  PDF :: string
  Filename :: string
  GenerationTimeMs :: int
  ContentLength :: int

record APIErrorResponse =
  Error :: string
  Message :: string
  Details :: json

record Config =
  APIKey :: string
  BaseURL :: string
  Timeout :: int
  Headers :: "(string \<times> string) list option"
  Debug :: bool

text \<open>
  \<open>Headers\<close> is a Go map: \<open>None\<close> is the nil map, and the list gives the entries in
  the order in which a \<open>range\<close> loop over the map visits them.
\<close>

subsection \<open>errors.go\<close>

text \<open>
  Error values of the standard library (causes wrapped by the SDK, and the value of
  \<open>ctx.Err()\<close>). The two sentinels of package \<open>context\<close> are told apart; every
  other error is opaque.
\<close>

datatype go_error = DeadlineExceeded | Canceled | OtherError string

record APIError =
  StatusCode :: int
  ErrorCode :: string
  Message :: string
  Details :: json

text \<open>
  The SDK's error types, one constructor per Go type that implements \<open>error\<close>.
  \<open>RateLimitError\<close> embeds an \<open>*APIError\<close> and adds \<open>RetryAfter\<close>;
  \<open>NetworkError\<close> carries its message and its cause (\<open>None\<close> is a nil cause).
\<close>

datatype sdk_error =
    DocumentStackError string
  | APIErr APIError
  | RateLimitError APIError int
  | TimeoutError int
  | NetworkError string "go_error option"

definition IsValidationError :: "APIError \<Rightarrow> bool" where
  "IsValidationError e = (StatusCode e = 400)"

definition IsAuthenticationError :: "APIError \<Rightarrow> bool" where
  "IsAuthenticationError e = (StatusCode e = 401)"

definition IsForbiddenError :: "APIError \<Rightarrow> bool" where
  "IsForbiddenError e = (StatusCode e = 403)"

definition IsNotFoundError :: "APIError \<Rightarrow> bool" where
  "IsNotFoundError e = (StatusCode e = 404)"

definition IsRateLimitError :: "APIError \<Rightarrow> bool" where
  "IsRateLimitError e = (StatusCode e = 429)"

definition IsServerError :: "APIError \<Rightarrow> bool" where
  "IsServerError e = (StatusCode e \<ge> 500)"

definition NewValidationError :: "string \<Rightarrow> json \<Rightarrow> APIError" where
  "NewValidationError message details =
     \<lparr>StatusCode = 400, ErrorCode = ''Bad Request'',
      APIError.Message = message, APIError.Details = details\<rparr>"

text \<open>
  The category predicates are methods of \<open>*APIError\<close>. On the other error types
  they exist only for \<open>RateLimitError\<close>, which promotes them from the embedded
  \<open>*APIError\<close>; \<open>api_error_of\<close> gives the \<open>APIError\<close> an error value carries, if any.
\<close>

fun api_error_of :: "sdk_error \<Rightarrow> APIError option" where
  "api_error_of (APIErr e) = Some e"
| "api_error_of (RateLimitError e _) = Some e"
| "api_error_of _ = None"

section \<open>Standard library functions used by the client\<close>

subsection \<open>\<open>strconv.ParseInt\<close> and \<open>strconv.Atoi\<close>, base 10\<close>

datatype NumError = ErrSyntax | ErrRange

definition is_digit :: "char \<Rightarrow> bool" where
  "is_digit c = (48 \<le> (of_char c :: nat) \<and> (of_char c :: nat) \<le> 57)"

definition digit_val :: "char \<Rightarrow> int" where
  "digit_val c = of_char c - 48"

text \<open>
  The loop of \<open>strconv.ParseUint(s, 10, bitSize)\<close> over the bytes of \<open>s\<close>, with the
  accumulator \<open>n\<close>. A byte that is not a decimal digit is a syntax error (value 0). The
  two overflow checks of the source (\<open>n >= cutoff\<close>, and \<open>n1 < n || n1 > maxVal\<close> on the
  wrapped sum) return \<open>maxVal\<close> with a range error at once, without reading the rest.
  \<open>n\<close> is a \<open>uint64\<close>, modelled as a non-negative \<open>int\<close>: below the cutoff
  \<open>n * 10\<close> does not wrap, and \<open>n * 10 + d\<close> wraps exactly when it exceeds
  \<open>2^64 - 1\<close>.
\<close>

fun ParseUint_loop :: "int \<Rightarrow> int \<Rightarrow> string \<Rightarrow> int \<times> NumError option" where
  "ParseUint_loop maxVal n [] = (n, None)"
| "ParseUint_loop maxVal n (c # cs) =
     (if \<not> is_digit c then (0, Some ErrSyntax)
      else if n \<ge> (2 ^ 64 - 1) div 10 + 1 then (maxVal, Some ErrRange)
      else let n1 = n * 10 + digit_val c in
        if n1 > 2 ^ 64 - 1 \<or> n1 > maxVal then (maxVal, Some ErrRange)
        else ParseUint_loop maxVal n1 cs)"

definition ParseUint :: "string \<Rightarrow> nat \<Rightarrow> int \<times> NumError option" where
  "ParseUint s bitSize =
     (if s = [] then (0, Some ErrSyntax)
      else ParseUint_loop (2 ^ bitSize - 1) 0 s)"

text \<open>
  \<open>strconv.ParseInt(s, 10, bitSize)\<close> for \<open>1 \<le> bitSize \<le> 64\<close>: the value and the
  error. A syntax error returns 0; a range error returns the nearest bound.
\<close>

definition ParseInt :: "string \<Rightarrow> nat \<Rightarrow> int \<times> NumError option" where
  "ParseInt s bitSize =
     (case s of
        [] \<Rightarrow> (0, Some ErrSyntax)
      | c # cs \<Rightarrow>
          let neg = (c = CHR ''-'');
              s' = (if c = CHR ''+'' \<or> c = CHR ''-'' then cs else s);
              r = ParseUint s' bitSize;
              un = fst r;
              cutoff = (2::int) ^ (bitSize - 1)
          in if snd r = Some ErrSyntax then (0, Some ErrSyntax)
             else if \<not> neg \<and> un \<ge> cutoff then (cutoff - 1, Some ErrRange)
             else if neg \<and> un > cutoff then (- cutoff, Some ErrRange)
             else (if neg then - un else un, None))"

text \<open>
  \<open>strconv.Atoi(s)\<close> is \<open>ParseInt(s, 10, 0)\<close> converted to \<open>int\<close> (its fast path
  for short strings computes the same value); \<open>int\<close> has \<open>IntSize\<close> bits, 64 on the
  platforms considered here.
\<close>

definition IntSize :: nat where
  "IntSize = 64"

definition Atoi :: "string \<Rightarrow> int \<times> NumError option" where
  "Atoi s = ParseInt s IntSize"

subsection \<open>\<open>strings.TrimSuffix\<close>\<close>

definition HasSuffix :: "string \<Rightarrow> string \<Rightarrow> bool" where
  "HasSuffix s suf = (length s \<ge> length suf \<and> drop (length s - length suf) s = suf)"

definition TrimSuffix :: "string \<Rightarrow> string \<Rightarrow> string" where
  "TrimSuffix s suf = (if HasSuffix s suf then take (length s - length suf) s else s)"

subsection \<open>\<open>net/http\<close>: headers\<close>

text \<open>
  \<open>http.Header\<close> is a \<open>map[string][]string\<close>. \<open>Get\<close> and \<open>Set\<close> canonicalise the key
  with \<open>textproto.CanonicalMIMEHeaderKey\<close>: a key with a byte that is not a header
  token byte is left as it is; otherwise the first letter and every letter after a
  hyphen are made upper case and all other letters lower case.
\<close>

type_synonym Header = "string \<rightharpoonup> string list"

definition is_upper :: "char \<Rightarrow> bool" where
  "is_upper c = (65 \<le> (of_char c :: nat) \<and> (of_char c :: nat) \<le> 90)"

definition is_lower :: "char \<Rightarrow> bool" where
  "is_lower c = (97 \<le> (of_char c :: nat) \<and> (of_char c :: nat) \<le> 122)"

definition to_upper :: "char \<Rightarrow> char" where
  "to_upper c = (if is_lower c then char_of (of_char c - (32::nat)) else c)"

definition to_lower :: "char \<Rightarrow> char" where
  "to_lower c = (if is_upper c then char_of (of_char c + (32::nat)) else c)"

definition validHeaderFieldByte :: "char \<Rightarrow> bool" where
  "validHeaderFieldByte c =
     (is_upper c \<or> is_lower c \<or> is_digit c \<or> c \<in> set ''!#$%&'' \<or> c = CHR 0x27
      \<or> c \<in> set ''*+-.^_|~'' \<or> c = CHR 0x60)"

fun canonical_loop :: "bool \<Rightarrow> string \<Rightarrow> string" where
  "canonical_loop upper [] = []"
| "canonical_loop upper (c # cs) =
     (let c' = (if upper then to_upper c else to_lower c)
      in c' # canonical_loop (c' = CHR ''-'') cs)"

definition CanonicalMIMEHeaderKey :: "string \<Rightarrow> string" where
  "CanonicalMIMEHeaderKey s =
     (if list_all validHeaderFieldByte s then canonical_loop True s else s)"

definition Header_Get :: "Header \<Rightarrow> string \<Rightarrow> string" where
  "Header_Get h key =
     (case h (CanonicalMIMEHeaderKey key) of
        None \<Rightarrow> []
      | Some [] \<Rightarrow> []
      | Some (v # _) \<Rightarrow> v)"

definition Header_Set :: "Header \<Rightarrow> string \<Rightarrow> string \<Rightarrow> Header" where
  "Header_Set h key v = h(CanonicalMIMEHeaderKey key \<mapsto> [v])"

subsection \<open>\<open>url.PathEscape\<close>\<close>

text \<open>
  \<open>shouldEscape(c, encodePathSegment)\<close>: letters, digits and \<open>- _ . ~\<close> are kept,
  and so are the reserved characters \<open>$ & + : = @\<close>; every other byte, among them
  \<open>/ ; , ?\<close>, becomes \<open>%XX\<close> with upper-case hexadecimal digits.
\<close>

definition shouldEscape :: "char \<Rightarrow> bool" where
  "shouldEscape c =
     (\<not> (is_upper c \<or> is_lower c \<or> is_digit c \<or> c \<in> set ''-_.~'' \<or> c \<in> set ''$&+:=@''))"

definition upperhex :: "nat \<Rightarrow> char" where
  "upperhex n = ''0123456789ABCDEF'' ! (n mod 16)"

definition PathEscape :: "string \<Rightarrow> string" where
  "PathEscape s =
     concat (map (\<lambda>c. if shouldEscape c
                        then [CHR ''%'', upperhex (of_char c div 16), upperhex (of_char c mod 16)]
                        else [c]) s)"

subsection \<open>\<open>regexp\<close>: leftmost-first matching with submatches\<close>

text \<open>
  The fragment of Go's regular expressions that the client's pattern uses: literals,
  negated character classes, concatenation, the greedy operators \<open>?\<close> and \<open>+\<close>, and
  capturing groups. \<open>run r (s, caps)\<close> lists every way in which \<open>r\<close> matches a prefix
  of \<open>s\<close>, as the remaining input and the captures, in the order in which a
  backtracking matcher tries them: Go returns the leftmost match, and among those the
  one a backtracking matcher finds first. Matching is on bytes. Go matches on UTF-8
  code points; for this pattern the two agree, since the class excludes only ASCII
  bytes, which never occur inside a multi-byte sequence, and a byte that is not valid
  UTF-8 is matched by a negated class as one code point of width one.
\<close>

datatype regex =
    EmptyMatch
  | Lit char
  | NotIn "char list"
  | Cat regex regex
  | Quest regex
  | Plus regex
  | Capture nat regex

type_synonym mstate = "string \<times> (nat \<times> string) list"

text \<open>
  One or more greedy iterations of a matcher \<open>f\<close>: after each iteration, first try
  another one, then stop. Each iteration of a body that consumes input shortens the
  input, so at most \<open>length s\<close> iterations are possible; that is the bound \<open>n\<close>.
\<close>

fun iterate :: "nat \<Rightarrow> (mstate \<Rightarrow> mstate list) \<Rightarrow> mstate \<Rightarrow> mstate list" where
  "iterate 0 f st = []"
| "iterate (Suc n) f st = concat (map (\<lambda>st'. iterate n f st' @ [st']) (f st))"

fun run :: "regex \<Rightarrow> mstate \<Rightarrow> mstate list" where
  "run EmptyMatch st = [st]"
| "run (Lit c) st =
     (case fst st of [] \<Rightarrow> [] | x # xs \<Rightarrow> if x = c then [(xs, snd st)] else [])"
| "run (NotIn cs) st =
     (case fst st of [] \<Rightarrow> [] | x # xs \<Rightarrow> if x \<in> set cs then [] else [(xs, snd st)])"
| "run (Cat a b) st = concat (map (run b) (run a st))"
| "run (Quest a) st = run a st @ [st]"
| "run (Plus a) st = iterate (length (fst st)) (run a) st"
| "run (Capture i a) st =
     map (\<lambda>st'. (fst st', (i, take (length (fst st) - length (fst st')) (fst st)) # snd st'))
       (run a st)"

fun NumSubexp :: "regex \<Rightarrow> nat" where
  "NumSubexp (Cat a b) = max (NumSubexp a) (NumSubexp b)"
| "NumSubexp (Quest a) = NumSubexp a"
| "NumSubexp (Plus a) = NumSubexp a"
| "NumSubexp (Capture i a) = max i (NumSubexp a)"
| "NumSubexp _ = 0"

text \<open>The first match that starts at the beginning of \<open>s\<close>: its text and captures.\<close>

definition match_here :: "regex \<Rightarrow> string \<Rightarrow> (string \<times> (nat \<times> string) list) option" where
  "match_here r s =
     (case run r (s, []) of
        [] \<Rightarrow> None
      | st # _ \<Rightarrow> Some (take (length s - length (fst st)) s, snd st))"

text \<open>The leftmost match: try every start offset in turn, the end of the input included.\<close>

fun search :: "regex \<Rightarrow> string \<Rightarrow> (string \<times> (nat \<times> string) list) option" where
  "search r [] = match_here r []"
| "search r (c # cs) =
     (case match_here r (c # cs) of Some m \<Rightarrow> Some m | None \<Rightarrow> search r cs)"

text \<open>
  \<open>FindStringSubmatch\<close>: the empty (nil) slice when there is no match; otherwise the
  text of the match followed by the text of each group, the empty string for a group
  that did not take part.
\<close>

definition FindStringSubmatch :: "regex \<Rightarrow> string \<Rightarrow> string list" where
  "FindStringSubmatch r s =
     (case search r s of
        None \<Rightarrow> []
      | Some m \<Rightarrow>
          fst m # map (\<lambda>i. case map_of (snd m) i of None \<Rightarrow> [] | Some x \<Rightarrow> x)
                    [1 ..< Suc (NumSubexp r)])"

fun literal :: "string \<Rightarrow> regex" where
  "literal [] = EmptyMatch"
| "literal (c # cs) = Cat (Lit c) (literal cs)"

subsection \<open>\<open>encoding/json\<close>: the text of a JSON value\<close>

text \<open>
  \<open>json.Unmarshal\<close> first checks that the whole input is one JSON value (its scanner,
  a push-down automaton over the bytes), then decodes it. The model reads the input
  into tokens and runs the same automaton over the tokens, building the value.
\<close>

definition isSpace :: "char \<Rightarrow> bool" where
  "isSpace c = (c = CHR '' '' \<or> c = CHR 0x09 \<or> c = CHR 0x0D \<or> c = CHR 0x0A)"

definition hex_val :: "char \<Rightarrow> nat option" where
  "hex_val c =
     (let n = (of_char c :: nat)
      in if 48 \<le> n \<and> n \<le> 57 then Some (n - 48)
         else if 97 \<le> n \<and> n \<le> 102 then Some (n - 87)
         else if 65 \<le> n \<and> n \<le> 70 then Some (n - 55)
         else None)"

fun hex_num :: "nat \<Rightarrow> string \<Rightarrow> nat option" where
  "hex_num acc [] = Some acc"
| "hex_num acc (c # cs) =
     (case hex_val c of None \<Rightarrow> None | Some d \<Rightarrow> hex_num (acc * 16 + d) cs)"

text \<open>
  \<open>getu4\<close>: the code unit of an escape \<open>\uXXXX\<close> at the head of the input
  (\<open>None\<close> where Go returns \<open>-1\<close>).
\<close>

definition getu4 :: "string \<Rightarrow> nat option" where
  "getu4 s =
     (case s of
        b # u # rest \<Rightarrow>
          if b = CHR 0x5C \<and> u = CHR ''u'' \<and> length rest \<ge> 4 then hex_num 0 (take 4 rest)
          else None
      | _ \<Rightarrow> None)"

definition RuneError :: nat where
  "RuneError = 0xFFFD"

definition IsSurrogate :: "nat \<Rightarrow> bool" where
  "IsSurrogate r = (0xD800 \<le> r \<and> r < 0xE000)"

text \<open>\<open>utf16.DecodeRune\<close>: the code point of a surrogate pair, \<open>U+FFFD\<close> if it is not one.\<close>

definition utf16_DecodeRune :: "nat \<Rightarrow> nat \<Rightarrow> nat" where
  "utf16_DecodeRune r1 r2 =
     (if 0xD800 \<le> r1 \<and> r1 < 0xDC00 \<and> 0xDC00 \<le> r2 \<and> r2 < 0xE000
      then (r1 - 0xD800) * 1024 + (r2 - 0xDC00) + 0x10000
      else RuneError)"

text \<open>\<open>utf8.EncodeRune\<close>: a surrogate or a value beyond \<open>U+10FFFF\<close> is encoded as \<open>U+FFFD\<close>.\<close>

definition EncodeRune :: "nat \<Rightarrow> string" where
  "EncodeRune r =
     (if r < 0x80 then [char_of r]
      else if r < 0x800 then [char_of (0xC0 + r div 64), char_of (0x80 + r mod 64)]
      else if IsSurrogate r \<or> r > 0x10FFFF then [CHR 0xEF, CHR 0xBF, CHR 0xBD]
      else if r < 0x10000 then
        [char_of (0xE0 + r div 4096), char_of (0x80 + (r div 64) mod 64),
         char_of (0x80 + r mod 64)]
      else
        [char_of (0xF0 + r div 262144), char_of (0x80 + (r div 4096) mod 64),
         char_of (0x80 + (r div 64) mod 64), char_of (0x80 + r mod 64)])"

text \<open>
  \<open>utf8.DecodeRune\<close> at a byte \<open>\<ge> 0x80\<close>: the width of the well-formed sequence
  that starts the input, or \<open>None\<close> where Go returns \<open>(RuneError, 1)\<close>.
\<close>

definition in_range :: "nat \<Rightarrow> nat \<Rightarrow> char \<Rightarrow> bool" where
  "in_range lo hi c = (lo \<le> (of_char c :: nat) \<and> (of_char c :: nat) \<le> hi)"

definition DecodeRune_width :: "string \<Rightarrow> nat option" where
  "DecodeRune_width s =
     (case s of
        [] \<Rightarrow> None
      | c0 # r \<Rightarrow>
          let b0 = (of_char c0 :: nat) in
          if 0xC2 \<le> b0 \<and> b0 \<le> 0xDF then
            (case r of c1 # _ \<Rightarrow> if in_range 0x80 0xBF c1 then Some 2 else None | _ \<Rightarrow> None)
          else if 0xE0 \<le> b0 \<and> b0 \<le> 0xEF then
            (case r of
               c1 # c2 # _ \<Rightarrow>
                 if in_range (if b0 = 0xE0 then 0xA0 else 0x80) (if b0 = 0xED then 0x9F else 0xBF) c1
                    \<and> in_range 0x80 0xBF c2
                 then Some 3 else None
             | _ \<Rightarrow> None)
          else if 0xF0 \<le> b0 \<and> b0 \<le> 0xF4 then
            (case r of
               c1 # c2 # c3 # _ \<Rightarrow>
                 if in_range (if b0 = 0xF0 then 0x90 else 0x80) (if b0 = 0xF4 then 0x8F else 0xBF) c1
                    \<and> in_range 0x80 0xBF c2 \<and> in_range 0x80 0xBF c3
                 then Some 4 else None
             | _ \<Rightarrow> None)
          else None)"

definition escape_char :: "char \<Rightarrow> char option" where
  "escape_char e =
     (if e = CHR 0x22 \<or> e = CHR 0x5C \<or> e = CHR ''/'' then Some e
      else if e = CHR ''b'' then Some (CHR 0x08)
      else if e = CHR ''f'' then Some (CHR 0x0C)
      else if e = CHR ''n'' then Some (CHR 0x0A)
      else if e = CHR ''r'' then Some (CHR 0x0D)
      else if e = CHR ''t'' then Some (CHR 0x09)
      else None)"

text \<open>
  A string literal, read from just after its opening quote: the decoded bytes (\<open>acc\<close>
  holds them in reverse) and the input after the closing quote. A control character, an
  unknown escape or the end of the input is a syntax error. An escaped surrogate pair is
  one code point; a lone surrogate, and every byte that does not start well-formed
  UTF-8, becomes \<open>U+FFFD\<close>. A well-formed sequence decodes and encodes to itself.
\<close>

function unquote :: "string \<Rightarrow> string \<Rightarrow> (string \<times> string) option" where
  "unquote acc [] = None"
| "unquote acc (c # cs) =
     (if c = CHR 0x22 then Some (rev acc, cs)
      else if c = CHR 0x5C then
        (case cs of
           [] \<Rightarrow> None
         | e # es \<Rightarrow>
             if e = CHR ''u'' then
               (case getu4 (c # cs) of
                  None \<Rightarrow> None
                | Some rr \<Rightarrow>
                    if IsSurrogate rr then
                      (case getu4 (drop 4 es) of
                         None \<Rightarrow> unquote (rev (EncodeRune RuneError) @ acc) (drop 4 es)
                       | Some rr1 \<Rightarrow>
                           if utf16_DecodeRune rr rr1 \<noteq> RuneError
                           then unquote (rev (EncodeRune (utf16_DecodeRune rr rr1)) @ acc)
                                  (drop 10 es)
                           else unquote (rev (EncodeRune RuneError) @ acc) (drop 4 es))
                    else unquote (rev (EncodeRune rr) @ acc) (drop 4 es))
             else
               (case escape_char e of
                  None \<Rightarrow> None
                | Some b \<Rightarrow> unquote (b # acc) es))
      else if (of_char c :: nat) < 0x20 then None
      else if (of_char c :: nat) < 0x80 then unquote (c # acc) cs
      else
        (case DecodeRune_width (c # cs) of
           None \<Rightarrow> unquote (rev (EncodeRune RuneError) @ acc) cs
         | Some n \<Rightarrow> unquote (rev (take n (c # cs)) @ acc) (drop (n - 1) cs)))"
  by pat_completeness auto
termination
  by (relation "measure (\<lambda>(acc, s). length s)") auto

text \<open>
  A number literal \<open>-?(0|[1-9][0-9]*)(\.[0-9]+)?([eE][+-]?[0-9]+)?\<close> at the head of
  the input: its text and the input after it.
\<close>

definition lex_digits1 :: "string \<Rightarrow> (string \<times> string) option" where
  "lex_digits1 s =
     (if takeWhile is_digit s = [] then None
      else Some (takeWhile is_digit s, dropWhile is_digit s))"

definition lex_frac :: "string \<Rightarrow> (string \<times> string) option" where
  "lex_frac s =
     (case s of
        c # r \<Rightarrow>
          if c = CHR ''.'' then map_option (\<lambda>p. (c # fst p, snd p)) (lex_digits1 r)
          else Some ([], s)
      | [] \<Rightarrow> Some ([], s))"

definition lex_exp :: "string \<Rightarrow> (string \<times> string) option" where
  "lex_exp s =
     (case s of
        c # r \<Rightarrow>
          if c = CHR ''e'' \<or> c = CHR ''E'' then
            (case r of
               g # r' \<Rightarrow>
                 if g = CHR ''+'' \<or> g = CHR ''-''
                 then map_option (\<lambda>p. (c # g # fst p, snd p)) (lex_digits1 r')
                 else map_option (\<lambda>p. (c # fst p, snd p)) (lex_digits1 r)
             | [] \<Rightarrow> None)
          else Some ([], s)
      | [] \<Rightarrow> Some ([], s))"

definition lex_int :: "string \<Rightarrow> (string \<times> string) option" where
  "lex_int s =
     (case s of
        d # r \<Rightarrow>
          if d = CHR ''0'' then Some ([d], r)
          else if is_digit d then Some (d # takeWhile is_digit r, dropWhile is_digit r)
          else None
      | [] \<Rightarrow> None)"

definition lex_number :: "string \<Rightarrow> (string \<times> string) option" where
  "lex_number s =
     (let sign = (case s of c # _ \<Rightarrow> if c = CHR ''-'' then [c] else [] | [] \<Rightarrow> [])
      in case lex_int (drop (length sign) s) of
           None \<Rightarrow> None
         | Some (ip, s2) \<Rightarrow>
             (case lex_frac s2 of
                None \<Rightarrow> None
              | Some (fp, s3) \<Rightarrow>
                  (case lex_exp s3 of
                     None \<Rightarrow> None
                   | Some (ep, s4) \<Rightarrow> Some (sign @ ip @ fp @ ep, s4))))"

datatype token =
    LBrace | RBrace | LBracket | RBracket | Colon | Comma
  | TString string
  | TNumber string
  | TLiteral json

lemma unquote_rest: "unquote acc s = Some (d, r) \<Longrightarrow> length r < length s"
proof (induction acc s arbitrary: d r rule: unquote.induct)
  case (1 acc)
  then show ?case by simp
next
  case (2 acc c cs)
  show ?case
  proof (cases "c = CHR 0x22")
    case True
    with "2.prems" show ?thesis by simp
  next
    case nq: False
    show ?thesis
    proof (cases "c = CHR 0x5C")
      case True
      with nq "2.prems" "2.IH"(1-5) show ?thesis
        by (fastforce split: list.splits option.splits if_splits)
    next
      case False
      with nq "2.prems" "2.IH"(6-8) show ?thesis
        by (fastforce split: option.splits if_splits)
    qed
  qed
qed

lemma lex_digits1_rest: "lex_digits1 s = Some (d, r) \<Longrightarrow> length r \<le> length s"
  by (auto simp: lex_digits1_def length_dropWhile_le split: if_splits)

lemma lex_frac_rest: "lex_frac s = Some (d, r) \<Longrightarrow> length r \<le> length s"
  by (auto simp: lex_frac_def split: list.splits if_splits dest!: lex_digits1_rest)

lemma lex_exp_rest: "lex_exp s = Some (d, r) \<Longrightarrow> length r \<le> length s"
  by (auto simp: lex_exp_def split: list.splits if_splits dest!: lex_digits1_rest)

lemma lex_int_rest: "lex_int s = Some (d, r) \<Longrightarrow> length r < length s"
  by (auto simp: lex_int_def less_Suc_eq_le length_dropWhile_le split: list.splits if_splits)

lemma lex_number_rest: "lex_number s = Some (d, r) \<Longrightarrow> length r < length s"
proof -
  assume a: "lex_number s = Some (d, r)"
  define sign where "sign = (case s of c # _ \<Rightarrow> if c = CHR ''-'' then [c] else [] | [] \<Rightarrow> [])"
  from a obtain ip s2 fp s3 ep where
    i: "lex_int (drop (length sign) s) = Some (ip, s2)" and
    f: "lex_frac s2 = Some (fp, s3)" and
    e: "lex_exp s3 = Some (ep, r)"
    unfolding lex_number_def Let_def sign_def by (auto split: option.splits)
  from lex_int_rest [OF i] have "length s2 < length s" by simp
  with lex_frac_rest [OF f] lex_exp_rest [OF e] show ?thesis by simp
qed

text \<open>The input after the prefix \<open>p\<close>, if it starts with \<open>p\<close>.\<close>

fun strip_prefix :: "string \<Rightarrow> string \<Rightarrow> string option" where
  "strip_prefix [] s = Some s"
| "strip_prefix (p # ps) [] = None"
| "strip_prefix (p # ps) (c # cs) = (if p = c then strip_prefix ps cs else None)"

text \<open>The one-byte tokens.\<close>

definition punctuation :: "char \<Rightarrow> token option" where
  "punctuation c =
     (if c = CHR ''{'' then Some LBrace
      else if c = CHR ''}'' then Some RBrace
      else if c = CHR ''['' then Some LBracket
      else if c = CHR '']'' then Some RBracket
      else if c = CHR '':'' then Some Colon
      else if c = CHR '','' then Some Comma
      else None)"

text \<open>
  The literals \<open>true\<close>, \<open>false\<close> and \<open>null\<close>, by their first byte: the bytes that
  must follow, and the value.
\<close>

definition keyword :: "char \<Rightarrow> (string \<times> json) option" where
  "keyword c =
     (if c = CHR ''t'' then Some (''rue'', JBool True)
      else if c = CHR ''f'' then Some (''alse'', JBool False)
      else if c = CHR ''n'' then Some (''ull'', JNull)
      else None)"

text \<open>
  The token that starts the input (which does not start with white space) and the
  input after it; \<open>None\<close> on a byte that starts no token.
\<close>

definition next_token :: "string \<Rightarrow> (token \<times> string) option" where
  "next_token s =
     (case s of
        [] \<Rightarrow> None
      | c # cs \<Rightarrow>
          (case punctuation c of
             Some t \<Rightarrow> Some (t, cs)
           | None \<Rightarrow>
               if c = CHR 0x22 then map_option (\<lambda>p. (TString (fst p), snd p)) (unquote [] cs)
               else if c = CHR ''-'' \<or> is_digit c then
                 map_option (\<lambda>p. (TNumber (fst p), snd p)) (lex_number s)
               else
                 (case keyword c of
                    Some k \<Rightarrow> map_option (Pair (TLiteral (snd k))) (strip_prefix (fst k) cs)
                  | None \<Rightarrow> None)))"

lemma strip_prefix_rest: "strip_prefix p s = Some r \<Longrightarrow> length r \<le> length s"
  by (induction p s rule: strip_prefix.induct) (auto split: if_splits)

lemma next_token_rest:
  assumes "next_token s = Some (t, r)"
  shows "length r < length s"
proof (cases s)
  case Nil
  with assms show ?thesis by (simp add: next_token_def)
next
  case (Cons c cs)
  show ?thesis
  proof (cases "punctuation c")
    case (Some p)
    with assms Cons show ?thesis by (simp add: next_token_def)
  next
    case None
    note np = None
    show ?thesis
    proof (cases "c = CHR 0x22")
      case True
      with assms Cons np obtain d where "unquote [] cs = Some (d, r)"
        by (auto simp: next_token_def)
      from unquote_rest [OF this] Cons show ?thesis by simp
    next
      case nq: False
      show ?thesis
      proof (cases "c = CHR ''-'' \<or> is_digit c")
        case True
        with assms Cons np nq obtain d where "lex_number s = Some (d, r)"
          by (auto simp: next_token_def)
        from lex_number_rest [OF this] show ?thesis .
      next
        case False
        with assms Cons np nq obtain k where "strip_prefix k cs = Some r"
          by (auto simp: next_token_def split: option.splits)
        from strip_prefix_rest [OF this] Cons show ?thesis by simp
      qed
    qed
  qed
qed

text \<open>
  The tokens of the input, \<open>None\<close> if some byte starts no token. White space between
  tokens is skipped.
\<close>

function lex :: "string \<Rightarrow> token list option" where
  "lex [] = Some []"
| "lex (c # cs) =
     (if isSpace c then lex cs
      else case next_token (c # cs) of
             None \<Rightarrow> None
           | Some (t, r) \<Rightarrow> map_option ((#) t) (lex r))"
  by pat_completeness auto
termination
proof (relation "measure length")
  show "wf (measure length)" by simp
next
  fix c :: char and cs :: string
  show "(cs, c # cs) \<in> measure length" by simp
next
  fix c :: char and cs :: string and x2 :: "token \<times> string" and t :: token and r :: string
  assume "next_token (c # cs) = Some x2" and "(t, r) = x2"
  then have "next_token (c # cs) = Some (t, r)" by simp
  from next_token_rest [OF this] show "(r, c # cs) \<in> measure length" by simp
qed

text \<open>
  The scanner's automaton. Its stack (\<open>parseState\<close> in the source) holds one frame
  for each array or object that is open, with what has been read of it: the elements
  of an array, or the members of an object and the key whose value is being read.
  \<open>scan_value\<close> is the scanner where a value must begin, \<open>end_value\<close> where a value
  has just ended. Opening an array or object when \<open>maxNestingDepth\<close> are open is an
  error. At the top level nothing may follow the value.
\<close>

datatype frame =
    ParseArrayValue "json list"
  | ParseObjectValue "(string \<times> json) list" string

definition maxNestingDepth :: nat where
  "maxNestingDepth = 10000"

fun scan_value :: "frame list \<Rightarrow> token list \<Rightarrow> json option"
  and end_value :: "json \<Rightarrow> frame list \<Rightarrow> token list \<Rightarrow> json option" where
  "scan_value st [] = None"
| "scan_value st (TString s # ts) = end_value (JString s) st ts"
| "scan_value st (TNumber n # ts) = end_value (JNumber n) st ts"
| "scan_value st (TLiteral v # ts) = end_value v st ts"
| "scan_value st (LBrace # ts) =
     (if length st \<ge> maxNestingDepth then None
      else case ts of
             RBrace # ts' \<Rightarrow> end_value (JObject []) st ts'
           | TString k # Colon # ts' \<Rightarrow> scan_value (ParseObjectValue [] k # st) ts'
           | _ \<Rightarrow> None)"
| "scan_value st (LBracket # ts) =
     (if length st \<ge> maxNestingDepth then None
      else case ts of
             RBracket # ts' \<Rightarrow> end_value (JArray []) st ts'
           | _ \<Rightarrow> scan_value (ParseArrayValue [] # st) ts)"
| "scan_value st (RBrace # ts) = None"
| "scan_value st (RBracket # ts) = None"
| "scan_value st (Colon # ts) = None"
| "scan_value st (Comma # ts) = None"
| "end_value v [] ts = (if ts = [] then Some v else None)"
| "end_value v (ParseArrayValue es # st) ts =
     (case ts of
        Comma # ts' \<Rightarrow> scan_value (ParseArrayValue (es @ [v]) # st) ts'
      | RBracket # ts' \<Rightarrow> end_value (JArray (es @ [v])) st ts'
      | _ \<Rightarrow> None)"
| "end_value v (ParseObjectValue ms k # st) ts =
     (case ts of
        Comma # TString k' # Colon # ts' \<Rightarrow>
          scan_value (ParseObjectValue (ms @ [(k, v)]) k' # st) ts'
      | RBrace # ts' \<Rightarrow> end_value (JObject (ms @ [(k, v)])) st ts'
      | _ \<Rightarrow> None)"

definition parse_json :: "string \<Rightarrow> json option" where
  "parse_json s = (case lex s of None \<Rightarrow> None | Some ts \<Rightarrow> scan_value [] ts)"

subsection \<open>\<open>encoding/json\<close>: decoding into \<open>APIErrorResponse\<close>\<close>

text \<open>
  \<open>strconv.ParseFloat(s, 64)\<close> on a JSON number literal fails exactly when the value
  rounds to infinity, that is when its magnitude is at least \<open>2^1024 - 2^970\<close>. The
  value is \<open>m * 10^(e - f)\<close> for the digits \<open>m\<close> of the mantissa, the number \<open>f\<close> of
  digits after the point and the exponent \<open>e\<close>; as in the source, exponent digits are
  read only while the exponent is below 10000.
\<close>

fun decimal :: "int \<Rightarrow> string \<Rightarrow> int" where
  "decimal n [] = n"
| "decimal n (c # cs) = decimal (n * 10 + digit_val c) cs"

fun capped_exponent :: "int \<Rightarrow> string \<Rightarrow> int" where
  "capped_exponent e [] = e"
| "capped_exponent e (c # cs) =
     capped_exponent (if e < 10000 then e * 10 + digit_val c else e) cs"

definition float64_overflow :: "string \<Rightarrow> bool" where
  "float64_overflow lit =
     (let body = dropWhile (\<lambda>c. c = CHR ''-'') lit;
          mant = takeWhile (\<lambda>c. c \<noteq> CHR ''e'' \<and> c \<noteq> CHR ''E'') body;
          ex = drop 1 (dropWhile (\<lambda>c. c \<noteq> CHR ''e'' \<and> c \<noteq> CHR ''E'') body);
          ipart = takeWhile is_digit mant;
          fpart = drop 1 (dropWhile is_digit mant);
          m = decimal 0 (ipart @ fpart);
          e = (case ex of
                 [] \<Rightarrow> 0
               | g # ds \<Rightarrow>
                   if g = CHR ''-'' then - capped_exponent 0 ds
                   else if g = CHR ''+'' then capped_exponent 0 ds
                   else capped_exponent 0 ex);
          dp = e - int (length fpart);
          bound = (2::int) ^ 1024 - 2 ^ 970
      in if dp \<ge> 0 then m * 10 ^ nat dp \<ge> bound else m \<ge> bound * 10 ^ nat (- dp))"

text \<open>Some number in a value stored into an \<open>interface{}\<close> does not fit a \<open>float64\<close>.\<close>

fun number_error :: "json \<Rightarrow> bool" where
  "number_error (JNumber n) = float64_overflow n"
| "number_error (JArray vs) = list_ex number_error vs"
| "number_error (JObject ms) = list_ex (\<lambda>m. number_error (snd m)) ms"
| "number_error _ = False"

text \<open>
  The field of \<open>APIErrorResponse\<close> a key names: the tag itself, or else the field
  whose tag equals the key up to case. \<open>foldName\<close> maps the key to upper case; the
  only code points beyond ASCII that fold to an ASCII letter are \<open>U+017F\<close> (to
  \<open>S\<close>) and \<open>U+212A\<close> (to \<open>K\<close>), and any other one matches no tag.
\<close>

fun foldName :: "string \<Rightarrow> string" where
  "foldName [] = []"
| "foldName [c] = [to_upper c]"
| "foldName [c, d] =
     (if c = CHR 0xC5 \<and> d = CHR 0xBF then ''S'' else to_upper c # foldName [d])"
| "foldName (c # d # e # cs) =
     (if c = CHR 0xC5 \<and> d = CHR 0xBF then CHR ''S'' # foldName (e # cs)
      else if c = CHR 0xE2 \<and> d = CHR 0x84 \<and> e = CHR 0xAA then CHR ''K'' # foldName cs
      else to_upper c # foldName (d # e # cs))"

datatype field = Field_Error | Field_Message | Field_Details

definition find_field :: "string \<Rightarrow> field option" where
  "find_field key =
     (if key = ''error'' then Some Field_Error
      else if key = ''message'' then Some Field_Message
      else if key = ''details'' then Some Field_Details
      else if foldName key = ''ERROR'' then Some Field_Error
      else if foldName key = ''MESSAGE'' then Some Field_Message
      else if foldName key = ''DETAILS'' then Some Field_Details
      else None)"

text \<open>
  Storing one member of the object into the struct. The state is the struct and
  whether an error has been saved (the decoder goes on after an
  \<open>UnmarshalTypeError\<close> and returns the first one at the end). A string field takes a
  string, is left alone by \<open>null\<close> and rejects every other value; \<open>Details\<close> takes
  any value, \<open>null\<close> as \<open>nil\<close>; a key that names no field is skipped.
\<close>

definition store_string :: "json \<Rightarrow> string \<Rightarrow> string \<times> bool" where
  "store_string v old =
     (case v of JString s \<Rightarrow> (s, False) | JNull \<Rightarrow> (old, False) | _ \<Rightarrow> (old, True))"

definition store_member ::
  "APIErrorResponse \<times> bool \<Rightarrow> string \<times> json \<Rightarrow> APIErrorResponse \<times> bool" where
  "store_member st m =
     (case find_field (fst m) of
        None \<Rightarrow> st
      | Some Field_Error \<Rightarrow>
          (fst st\<lparr>Error := fst (store_string (snd m) (Error (fst st)))\<rparr>,
           snd st \<or> snd (store_string (snd m) (Error (fst st))))
      | Some Field_Message \<Rightarrow>
          (fst st\<lparr>APIErrorResponse.Message :=
                    fst (store_string (snd m) (APIErrorResponse.Message (fst st)))\<rparr>,
           snd st \<or> snd (store_string (snd m) (APIErrorResponse.Message (fst st))))
      | Some Field_Details \<Rightarrow>
          (fst st\<lparr>APIErrorResponse.Details := snd m\<rparr>, snd st \<or> number_error (snd m)))"

datatype json_error = SyntaxError | UnmarshalTypeError

text \<open>
  \<open>json.Unmarshal(body, &errorBody)\<close> for a zero \<open>errorBody\<close>: a syntax error if the
  input is not one JSON value; no change for \<open>null\<close>; the members stored in turn for
  an object; a type error for every other value.
\<close>

definition zero_APIErrorResponse :: APIErrorResponse where
  "zero_APIErrorResponse =
     \<lparr>Error = [], APIErrorResponse.Message = [], APIErrorResponse.Details = JNull\<rparr>"

definition Unmarshal :: "string \<Rightarrow> json_error + APIErrorResponse" where
  "Unmarshal body =
     (case parse_json body of
        None \<Rightarrow> Inl SyntaxError
      | Some JNull \<Rightarrow> Inr zero_APIErrorResponse
      | Some (JObject ms) \<Rightarrow>
          (let st = foldl store_member (zero_APIErrorResponse, False) ms
           in if snd st then Inl UnmarshalTypeError else Inr (fst st))
      | Some _ \<Rightarrow> Inl UnmarshalTypeError)"

section \<open>Client construction\<close>

definition defaultBaseURL :: string where
  "defaultBaseURL = ''https://api.documentstack.dev''"

definition defaultTimeout :: int where
  "defaultTimeout = 30"

text \<open>
  \<open>time.Duration(config.Timeout) * time.Second\<close>: a product of \<open>int64\<close> values in
  nanoseconds, which wraps modulo \<open>2^64\<close>.
\<close>

definition seconds_Duration :: "int \<Rightarrow> int" where
  "seconds_Duration t = sint (word_of_int (t * 1000000000) :: 64 word)"

record http_Client =
  Timeout :: int

record Client =
  config :: Config
  httpClient :: http_Client

definition New :: "Config \<Rightarrow> sdk_error + Client" where
  "New cfg =
     (if APIKey cfg = [] then Inl (DocumentStackError ''API key is required'')
      else
        let cfg1 = (if BaseURL cfg = [] then cfg\<lparr>BaseURL := defaultBaseURL\<rparr> else cfg);
            cfg2 = cfg1\<lparr>BaseURL := TrimSuffix (BaseURL cfg1) ''/''\<rparr>;
            cfg3 = (if Config.Timeout cfg2 \<le> 0 then cfg2\<lparr>Config.Timeout := defaultTimeout\<rparr>
                    else cfg2);
            cfg4 = (if Headers cfg3 = None then cfg3\<lparr>Headers := Some []\<rparr> else cfg3)
        in Inr \<lparr>config = cfg4,
                httpClient = \<lparr>Timeout = seconds_Duration (Config.Timeout cfg4)\<rparr>\<rparr>)"

section \<open>The world outside the client\<close>

text \<open>
  An HTTP request as the client builds it, and a response as the transport hands it
  over. The body of a response is what \<open>io.ReadAll\<close> returns for it: the bytes read,
  and the error that ended the reading, if any.
\<close>

record Request =
  Method :: string
  URL :: string
  Header :: Header
  Body :: string

record Response =
  StatusCode :: int
  Status :: string
  Header :: Header
  Body :: "string \<times> go_error option"

definition ReadAll :: "string \<times> go_error option \<Rightarrow> string \<times> go_error option" where
  "ReadAll body = body"

text \<open>
  The execution context: \<open>Err\<close> is what \<open>ctx.Err()\<close> returns when \<open>Generate\<close>
  asks, after a failed dispatch. A nil context is \<open>None\<close>.
\<close>

record Context =
  Err :: "go_error option"

text \<open>
  What the client cannot decide by itself is a parameter: whether \<open>json.Marshal\<close>
  accepts the payload and the text it yields, whether \<open>url.Parse\<close> accepts the
  endpoint, and what the transport does with a request.
\<close>

record 'v World =
  Marshal :: "'v GenerateRequest \<Rightarrow> go_error + string"
  url_Parse :: "string \<Rightarrow> go_error option"
  Do :: "Request \<Rightarrow> go_error + Response"

text \<open>
  What a call does besides returning: the lines it logs (the format and its
  arguments) and the requests it hands to the transport, in order.
\<close>

datatype arg = Str string | Num int

datatype event = Printf string "arg list" | RoundTrip Request

definition NewRequestWithContext ::
  "'v World \<Rightarrow> Context option \<Rightarrow> string \<Rightarrow> string \<Rightarrow> string \<Rightarrow> go_error + Request" where
  "NewRequestWithContext w ctx method url body =
     (case ctx of
        None \<Rightarrow> Inl (OtherError ''net/http: nil Context'')
      | Some _ \<Rightarrow>
          (case url_Parse w url of
             Some err \<Rightarrow> Inl err
           | None \<Rightarrow>
               Inr \<lparr>Method = method, URL = url, Request.Header = Map.empty,
                    Request.Body = body\<rparr>))"

section \<open>Error classification\<close>

definition parseErrorResponse :: "Client \<Rightarrow> Response \<Rightarrow> sdk_error" where
  "parseErrorResponse c resp =
     (let body = fst (ReadAll (Response.Body resp));
          errorBody =
            (case Unmarshal body of
               Inl err \<Rightarrow>
                 \<lparr>Error = ''Unknown Error'', APIErrorResponse.Message = Status resp,
                  APIErrorResponse.Details = JNull\<rparr>
             | Inr eb \<Rightarrow> eb);
          apiErr =
            \<lparr>APIError.StatusCode = Response.StatusCode resp,
             ErrorCode = Error errorBody,
             APIError.Message = APIErrorResponse.Message errorBody,
             APIError.Details = APIErrorResponse.Details errorBody\<rparr>
      in if Response.StatusCode resp = 429
         then RateLimitError apiErr
                (fst (Atoi (Header_Get (Response.Header resp) ''Retry-After'')))
         else APIErr apiErr)"

section \<open>Generate\<close>

text \<open>The pattern \<open>filename="?([^";\n]+)"?\<close>.\<close>

definition filename_re :: regex where
  "filename_re =
     Cat (literal ''filename='')
       (Cat (Quest (Lit (CHR 0x22)))
         (Cat (Capture 1 (Plus (NotIn [CHR 0x22, CHR '';'', CHR 0x0A])))
              (Quest (Lit (CHR 0x22)))))"

text \<open>
  \<open>Generate\<close> up to the dispatch (after the check of the template ID): the payload,
  the endpoint, the body, the debug log and the request with its headers.
\<close>

definition build_request ::
  "'v World \<Rightarrow> Client \<Rightarrow> Context option \<Rightarrow> string \<Rightarrow> 'v GenerateRequest option
     \<Rightarrow> (sdk_error + Request) \<times> event list" where
  "build_request w c ctx templateID request =
     (let request' = (case request of None \<Rightarrow> \<lparr>Data = None, Options = None\<rparr> | Some r \<Rightarrow> r);
          endpoint = BaseURL (config c) @ ''/api/v1/generate/'' @ PathEscape templateID
      in case Marshal w request' of
           Inl err \<Rightarrow> (Inl (NetworkError ''failed to marshal request body'' (Some err)), [])
         | Inr body \<Rightarrow>
             (let log = (if Debug (config c)
                         then [Printf ''[DocumentStack] Request: POST %s\<newline>'' [Str endpoint],
                               Printf ''[DocumentStack] Body: %s\<newline>'' [Str body]]
                         else [])
              in case NewRequestWithContext w ctx ''POST'' endpoint body of
                   Inl err \<Rightarrow> (Inl (NetworkError ''failed to create request'' (Some err)), log)
                 | Inr req \<Rightarrow>
                     (let h1 = Header_Set (Request.Header req) ''Content-Type''
                                 ''application/json'';
                          h2 = Header_Set h1 ''Authorization'' (''Bearer '' @ APIKey (config c));
                          h3 = foldl (\<lambda>h kv. Header_Set h (fst kv) (snd kv)) h2
                                 (case Headers (config c) of None \<Rightarrow> [] | Some hs \<Rightarrow> hs)
                      in (Inr (req\<lparr>Request.Header := h3\<rparr>), log))))"

text \<open>\<open>Generate\<close> from the response on.\<close>

definition read_response ::
  "Client \<Rightarrow> Response \<Rightarrow> (sdk_error + GenerateResponse) \<times> event list" where
  "read_response c resp =
     (if Response.StatusCode resp \<noteq> 200 then (Inl (parseErrorResponse c resp), [])
      else
        case snd (ReadAll (Response.Body resp)) of
          Some err \<Rightarrow> (Inl (NetworkError ''failed to read response body'' (Some err)), [])
        | None \<Rightarrow>
            (let pdf = fst (ReadAll (Response.Body resp));
                 contentDisposition = Header_Get (Response.Header resp) ''Content-Disposition'';
                 generationTimeMs =
                   fst (ParseInt (Header_Get (Response.Header resp) ''X-Generation-Time-Ms'') 64);
                 contentLength =
                   fst (ParseInt (Header_Get (Response.Header resp) ''Content-Length'') 64);
                 matches = FindStringSubmatch filename_re contentDisposition;
                 filename = (if length matches > 1 then matches ! 1 else ''document.pdf'');
                 contentLength' = (if contentLength = 0 then int (length pdf) else contentLength)
             in (Inr \<lparr>PDF = pdf, GenerateResponse.Filename = filename,
                       GenerationTimeMs = generationTimeMs, ContentLength = contentLength'\<rparr>,
                 if Debug (config c)
                 then [Printf ''[DocumentStack] Response: filename=%s, time=%dms, size=%d\<newline>''
                         [Str filename, Num generationTimeMs, Num contentLength']]
                 else [])))"

definition Generate ::
  "'v World \<Rightarrow> Client \<Rightarrow> Context option \<Rightarrow> string \<Rightarrow> 'v GenerateRequest option
     \<Rightarrow> (sdk_error + GenerateResponse) \<times> event list" where
  "Generate w c ctx templateID request =
     (if templateID = []
      then (Inl (APIErr (NewValidationError ''Template ID is required'' JNull)), [])
      else
        case build_request w c ctx templateID request of
          (Inl e, log) \<Rightarrow> (Inl e, log)
        | (Inr req, log) \<Rightarrow>
            (case Do w req of
               Inl err \<Rightarrow>
                 (Inl (if (case ctx of None \<Rightarrow> None | Some cx \<Rightarrow> Err cx) = Some DeadlineExceeded
                       then TimeoutError (Config.Timeout (config c))
                       else NetworkError ''request failed'' (Some err)),
                  log @ [RoundTrip req])
             | Inr resp \<Rightarrow>
                 (fst (read_response c resp),
                  log @ [RoundTrip req] @ snd (read_response c resp))))"

section \<open>Observations and examples\<close>

definition demo_client :: Client where
  "demo_client =
     \<lparr>config = \<lparr>APIKey = ''key'', BaseURL = ''https://api.documentstack.dev'', Timeout = 30,
                Headers = Some [], Debug = False\<rparr>,
      httpClient = \<lparr>Timeout = 30000000000\<rparr>\<rparr>"

text \<open>
  A world in which the payload marshals to \<open>{}\<close>, every URL parses, and the transport
  answers every request with \<open>answer\<close>.
\<close>

definition demo_world :: "go_error + Response \<Rightarrow> unit World" where
  "demo_world answer =
     \<lparr>Marshal = (\<lambda>r. Inr ''{}''), url_Parse = (\<lambda>u. None), Do = (\<lambda>req. answer)\<rparr>"

text \<open>
  The response \<open>Generate\<close> receives, if the call gets as far as receiving one.
\<close>

definition received :: "'v World \<Rightarrow> Client \<Rightarrow> Context option \<Rightarrow> string
    \<Rightarrow> 'v GenerateRequest option \<Rightarrow> (go_error + Response) option" where
  "received w c ctx templateID request =
     (if templateID = [] then None
      else case fst (build_request w c ctx templateID request) of
             Inl e \<Rightarrow> None
           | Inr req \<Rightarrow> Some (Do w req))"

section \<open>Properties of the client\<close>

subsection \<open>Evaluation and library facts\<close>

lemmas json_eval = Unmarshal_def parse_json_def isSpace_def next_token_def punctuation_def
  keyword_def zero_APIErrorResponse_def store_member_def find_field_def store_string_def
  maxNestingDepth_def

lemmas strconv_eval = Atoi_def ParseInt_def ParseUint_def IntSize_def digit_val_def
  is_digit_def Let_def

lemma canonical_keys:
  "CanonicalMIMEHeaderKey ''Retry-After'' = ''Retry-After''"
  "CanonicalMIMEHeaderKey ''Content-Length'' = ''Content-Length''"
  "CanonicalMIMEHeaderKey ''Content-Disposition'' = ''Content-Disposition''"
  "CanonicalMIMEHeaderKey ''X-Generation-Time-Ms'' = ''X-Generation-Time-Ms''"
  by (simp_all add: CanonicalMIMEHeaderKey_def validHeaderFieldByte_def is_upper_def
        is_lower_def is_digit_def to_upper_def to_lower_def Let_def)

lemma ParseInt_syntax: "snd (ParseInt s b) = Some ErrSyntax \<Longrightarrow> fst (ParseInt s b) = 0"
  by (auto simp: ParseInt_def Let_def split: list.splits if_splits)

lemma ParseInt_range:
  "snd (ParseInt s b) = Some ErrRange \<Longrightarrow>
     fst (ParseInt s b) = 2 ^ (b - 1) - 1 \<or> fst (ParseInt s b) = - (2 ^ (b - 1))"
  by (auto simp: ParseInt_def Let_def split: list.splits if_splits)

lemma ParseInt_empty: "ParseInt [] b = (0, Some ErrSyntax)"
  by (simp add: ParseInt_def)

lemma ParseInt_zero: "ParseInt ''0'' 64 = (0, None)"
  by (simp add: strconv_eval)

text \<open>
  Some values of \<open>strconv.ParseInt\<close>. Twenty nines overflow \<open>uint64\<close> at the
  twentieth digit, where \<open>ParseUint\<close> returns a range error without reading on, so
  what follows the digits is never seen.
\<close>

lemma ParseInt_examples:
  "ParseInt ''abc'' 64 = (0, Some ErrSyntax)"
  "ParseInt ''5'' 64 = (5, None)"
  "ParseInt ''1234'' 64 = (1234, None)"
  "ParseInt ''9223372036854775808'' 64 = (9223372036854775807, Some ErrRange)"
  "ParseInt ''99999999999999999999'' 64 = (9223372036854775807, Some ErrRange)"
  "ParseInt ''99999999999999999999abc'' 64 = (9223372036854775807, Some ErrRange)"
  "ParseInt ''-99999999999999999999 seconds'' 64 = (- 9223372036854775808, Some ErrRange)"
  by (simp_all add: strconv_eval)

subsection \<open>Construction\<close>

text \<open>
  Claim C8, as the code has it. \<open>New\<close> fails with the configuration error exactly when the
  API key is empty. Otherwise it succeeds: the base URL is the default when the field is
  empty and the field without one trailing slash otherwise; the timeout is the default
  (30) when the field is zero or negative and the field otherwise; a nil header map
  becomes an empty one; key and debug flag are kept; and the transport's timeout is the
  resolved timeout in seconds.
\<close>

theorem New_resolves_config:
  "New cfg =
     (if APIKey cfg = [] then Inl (DocumentStackError ''API key is required'')
      else Inr \<lparr>config = \<lparr>APIKey = APIKey cfg,
                 BaseURL = (if BaseURL cfg = [] then ''https://api.documentstack.dev''
                            else TrimSuffix (BaseURL cfg) ''/''),
                 Timeout = (if Config.Timeout cfg \<le> 0 then 30 else Config.Timeout cfg),
                 Headers = (case Headers cfg of None \<Rightarrow> Some [] | Some h \<Rightarrow> Some h),
                 Debug = Debug cfg\<rparr>,
               httpClient = \<lparr>Timeout = seconds_Duration
                 (if Config.Timeout cfg \<le> 0 then 30 else Config.Timeout cfg)\<rparr>\<rparr>)"
  by (cases cfg)
     (simp add: New_def Let_def TrimSuffix_def HasSuffix_def defaultBaseURL_def
        defaultTimeout_def split: option.splits)

text \<open>
  Claim C8 as stated fails: with a non-empty key and the non-zero timeout \<open>-1\<close> the
  default 30 is applied all the same.
\<close>

theorem New_negative_timeout_counterexample:
  "Config.Timeout \<lparr>APIKey = ''k'', BaseURL = ''https://x'', Timeout = - 1,
                    Headers = None, Debug = False\<rparr> \<noteq> 0
   \<and> New \<lparr>APIKey = ''k'', BaseURL = ''https://x'', Timeout = - 1,
           Headers = None, Debug = False\<rparr>
     = Inr \<lparr>config = \<lparr>APIKey = ''k'', BaseURL = ''https://x'', Timeout = 30,
                          Headers = Some [], Debug = False\<rparr>,
             httpClient = \<lparr>Timeout = 30000000000\<rparr>\<rparr>"
  by (simp add: New_def Let_def TrimSuffix_def HasSuffix_def defaultTimeout_def
        seconds_Duration_def)

subsection \<open>From the call to the response\<close>

lemma Generate_received:
  "received w c ctx templateID request = Some (Inr resp) \<Longrightarrow>
     fst (Generate w c ctx templateID request) = fst (read_response c resp)"
  by (auto simp: received_def Generate_def split: if_splits sum.splits prod.splits)

lemma received_ctx:
  "received w c ctx templateID request = Some a \<Longrightarrow> ctx \<noteq> None"
  by (auto simp: received_def build_request_def NewRequestWithContext_def Let_def
        split: if_splits sum.splits option.splits)

lemma received_demo:
  "received (demo_world a) demo_client (Some \<lparr>Err = e\<rparr>) ''t'' None = Some a"
  by (simp add: received_def build_request_def NewRequestWithContext_def Let_def
        demo_world_def demo_client_def)

lemma demo_client_timeout: "Config.Timeout (config demo_client) = 30"
  by (simp add: demo_client_def)

subsection \<open>Dispatch failures\<close>

text \<open>
  Claim C4. When the transport fails, \<open>Generate\<close> returns a timeout error carrying the
  configured timeout if \<open>ctx.Err()\<close> is \<open>context.DeadlineExceeded\<close>, and otherwise
  a network error with the message \<open>request failed\<close> that wraps the transport's error.
\<close>

theorem dispatch_failure:
  assumes "received w c (Some cx) templateID request = Some (Inl cause)"
  shows "fst (Generate w c (Some cx) templateID request) =
           Inl (if Err cx = Some DeadlineExceeded
                then TimeoutError (Config.Timeout (config c))
                else NetworkError ''request failed'' (Some cause))"
  using assms
  by (auto simp: received_def Generate_def split: if_splits sum.splits prod.splits)

theorem dispatch_failure_witness:
  "received (demo_world (Inl (OtherError ''dial tcp: timeout''))) demo_client
       (Some \<lparr>Err = Some DeadlineExceeded\<rparr>) ''t'' None
     = Some (Inl (OtherError ''dial tcp: timeout''))
   \<and> fst (Generate (demo_world (Inl (OtherError ''dial tcp: timeout''))) demo_client
       (Some \<lparr>Err = Some DeadlineExceeded\<rparr>) ''t'' None) = Inl (TimeoutError 30)
   \<and> fst (Generate (demo_world (Inl (OtherError ''connection refused''))) demo_client
       (Some \<lparr>Err = None\<rparr>) ''t'' None)
     = Inl (NetworkError ''request failed'' (Some (OtherError ''connection refused'')))"
  using dispatch_failure [OF received_demo, of "OtherError ''dial tcp: timeout''" "Some DeadlineExceeded"]
    dispatch_failure [OF received_demo, of "OtherError ''connection refused''" None]
  by (simp add: received_demo demo_client_timeout)

subsection \<open>The empty template ID\<close>

text \<open>
  Claim C7. With an empty template ID \<open>Generate\<close> returns the validation error and
  does nothing else: it logs nothing and hands no request to the transport, whatever
  the world, the client, the context and the payload are.
\<close>

theorem Generate_empty_template_id:
  "Generate w c ctx [] request =
     (Inl (APIErr (NewValidationError ''Template ID is required'' JNull)), [])
   \<and> IsValidationError (NewValidationError ''Template ID is required'' JNull)"
  by (simp add: Generate_def NewValidationError_def IsValidationError_def)

text \<open>
  Claim C10. That validation error is an \<open>APIError\<close> with status 400, code
  \<open>Bad Request\<close> and nil details; \<open>IsValidationError\<close> holds of it; and it is the very
  value the classifier returns for a 400 response whose body carries that code and
  message.
\<close>

theorem validation_error_is_a_400_APIError:
  \<open>fst (Generate w c ctx [] request) =
     Inl (APIErr \<lparr>APIError.StatusCode = 400, ErrorCode = ''Bad Request'',
                   APIError.Message = ''Template ID is required'',
                   APIError.Details = JNull\<rparr>)
   \<and> IsValidationError \<lparr>APIError.StatusCode = 400, ErrorCode = ''Bad Request'',
                   APIError.Message = ''Template ID is required'',
                   APIError.Details = JNull\<rparr>
   \<and> fst (Generate w c ctx [] request) =
       Inl (parseErrorResponse c'
             \<lparr>StatusCode = 400, Status = ''400 Bad Request'', Header = Map.empty,
              Body = (''{"error":"Bad Request","message":"Template ID is required"}'',
                      None)\<rparr>)\<close>
  by (simp add: Generate_def NewValidationError_def IsValidationError_def
        parseErrorResponse_def ReadAll_def json_eval)

subsection \<open>Error classification\<close>

text \<open>
  Claim C5, as the code has it. The classifier builds the generic API error from the
  status code and the decoded (or fallback) body; for status 429 it returns it inside a
  rate-limit error with the value \<open>strconv.Atoi\<close> gives for the \<open>Retry-After\<close> header,
  and for every other status it returns it as it is. The error of \<open>Atoi\<close> is dropped:
  the value is 0 when the header is absent and whenever \<open>Atoi\<close> reports a syntax
  error, and it is the nearest bound of \<open>int\<close>, which is 64 bits wide here, whenever
  \<open>Atoi\<close> reports a range error.
\<close>

theorem parseErrorResponse_cases:
  "parseErrorResponse c resp =
     (let errorBody = (case Unmarshal (fst (Response.Body resp)) of
                         Inl err \<Rightarrow> \<lparr>Error = ''Unknown Error'',
                                     APIErrorResponse.Message = Status resp,
                                     APIErrorResponse.Details = JNull\<rparr>
                       | Inr eb \<Rightarrow> eb);
          apiErr = \<lparr>APIError.StatusCode = Response.StatusCode resp,
                    ErrorCode = Error errorBody,
                    APIError.Message = APIErrorResponse.Message errorBody,
                    APIError.Details = APIErrorResponse.Details errorBody\<rparr>
      in if Response.StatusCode resp = 429
         then RateLimitError apiErr (fst (Atoi (Header_Get (Response.Header resp) ''Retry-After'')))
         else APIErr apiErr)
   \<and> (Response.Header resp ''Retry-After'' = None
        \<or> snd (Atoi (Header_Get (Response.Header resp) ''Retry-After'')) = Some ErrSyntax
      \<longrightarrow> fst (Atoi (Header_Get (Response.Header resp) ''Retry-After'')) = 0)
   \<and> (snd (Atoi (Header_Get (Response.Header resp) ''Retry-After'')) = Some ErrRange
      \<longrightarrow> fst (Atoi (Header_Get (Response.Header resp) ''Retry-After'')) = 2 ^ 63 - 1
        \<or> fst (Atoi (Header_Get (Response.Header resp) ''Retry-After'')) = - (2 ^ 63))"
proof -
  have a: "Response.Header resp ''Retry-After'' = None \<Longrightarrow>
        fst (Atoi (Header_Get (Response.Header resp) ''Retry-After'')) = 0"
    by (simp add: Header_Get_def canonical_keys Atoi_def ParseInt_empty)
  have b: "snd (Atoi (Header_Get (Response.Header resp) ''Retry-After'')) = Some ErrSyntax \<Longrightarrow>
        fst (Atoi (Header_Get (Response.Header resp) ''Retry-After'')) = 0"
    unfolding Atoi_def by (rule ParseInt_syntax)
  have r: "snd (Atoi (Header_Get (Response.Header resp) ''Retry-After'')) = Some ErrRange \<Longrightarrow>
        fst (Atoi (Header_Get (Response.Header resp) ''Retry-After'')) = 2 ^ 63 - 1
        \<or> fst (Atoi (Header_Get (Response.Header resp) ''Retry-After'')) = - (2 ^ 63)"
    using ParseInt_range [of "Header_Get (Response.Header resp) ''Retry-After''" 64]
    by (simp add: Atoi_def IntSize_def)
  have d: "parseErrorResponse c resp =
     (let errorBody = (case Unmarshal (fst (Response.Body resp)) of
                         Inl err \<Rightarrow> \<lparr>Error = ''Unknown Error'',
                                     APIErrorResponse.Message = Status resp,
                                     APIErrorResponse.Details = JNull\<rparr>
                       | Inr eb \<Rightarrow> eb);
          apiErr = \<lparr>APIError.StatusCode = Response.StatusCode resp,
                    ErrorCode = Error errorBody,
                    APIError.Message = APIErrorResponse.Message errorBody,
                    APIError.Details = APIErrorResponse.Details errorBody\<rparr>
      in if Response.StatusCode resp = 429
         then RateLimitError apiErr (fst (Atoi (Header_Get (Response.Header resp) ''Retry-After'')))
         else APIErr apiErr)"
    by (simp add: parseErrorResponse_def ReadAll_def Let_def)
  from a b r d show ?thesis by blast
qed

text \<open>The two error bodies of the examples, decoded.\<close>

lemma Unmarshal_examples:
  \<open>Unmarshal ''{"error":"RateLimited","message":"slow down"}''
     = Inr \<lparr>Error = ''RateLimited'', APIErrorResponse.Message = ''slow down'',
            APIErrorResponse.Details = JNull\<rparr>\<close>
  \<open>Unmarshal ''{"error":"NotFound","message":"no such template"}''
     = Inr \<lparr>Error = ''NotFound'', APIErrorResponse.Message = ''no such template'',
            APIErrorResponse.Details = JNull\<rparr>\<close>
  by (simp_all add: json_eval)

text \<open>
  The example of claim C5 (a 429 response with \<open>Retry-After: 5\<close>); 429 responses
  without the header, with \<open>Retry-After: abc\<close>, and with two values out of the range
  of \<open>int\<close> that are followed by other text; and a 404 response.
\<close>

theorem parseErrorResponse_cases_witness:
  \<open>parseErrorResponse demo_client
        \<lparr>StatusCode = 429, Status = ''429 Too Many Requests'',
         Header = [''Retry-After'' \<mapsto> [''5'']],
         Body = (''{"error":"RateLimited","message":"slow down"}'', None)\<rparr>
      = RateLimitError \<lparr>APIError.StatusCode = 429, ErrorCode = ''RateLimited'',
           APIError.Message = ''slow down'', APIError.Details = JNull\<rparr> 5
   \<and> parseErrorResponse demo_client
        \<lparr>StatusCode = 429, Status = ''429 Too Many Requests'',
         Header = Map.empty,
         Body = (''{"error":"RateLimited","message":"slow down"}'', None)\<rparr>
      = RateLimitError \<lparr>APIError.StatusCode = 429, ErrorCode = ''RateLimited'',
           APIError.Message = ''slow down'', APIError.Details = JNull\<rparr> 0
   \<and> parseErrorResponse demo_client
        \<lparr>StatusCode = 429, Status = ''429 Too Many Requests'',
         Header = [''Retry-After'' \<mapsto> [''abc'']],
         Body = (''{"error":"RateLimited","message":"slow down"}'', None)\<rparr>
      = RateLimitError \<lparr>APIError.StatusCode = 429, ErrorCode = ''RateLimited'',
           APIError.Message = ''slow down'', APIError.Details = JNull\<rparr> 0
   \<and> parseErrorResponse demo_client
        \<lparr>StatusCode = 429, Status = ''429 Too Many Requests'',
         Header = [''Retry-After'' \<mapsto> [''99999999999999999999abc'']],
         Body = (''{"error":"RateLimited","message":"slow down"}'', None)\<rparr>
      = RateLimitError \<lparr>APIError.StatusCode = 429, ErrorCode = ''RateLimited'',
           APIError.Message = ''slow down'', APIError.Details = JNull\<rparr> 9223372036854775807
   \<and> parseErrorResponse demo_client
        \<lparr>StatusCode = 429, Status = ''429 Too Many Requests'',
         Header = [''Retry-After'' \<mapsto> [''-99999999999999999999 seconds'']],
         Body = (''{"error":"RateLimited","message":"slow down"}'', None)\<rparr>
      = RateLimitError \<lparr>APIError.StatusCode = 429, ErrorCode = ''RateLimited'',
           APIError.Message = ''slow down'', APIError.Details = JNull\<rparr> (- 9223372036854775808)
   \<and> parseErrorResponse demo_client
        \<lparr>StatusCode = 404, Status = ''404 Not Found'', Header = Map.empty,
         Body = (''{"error":"NotFound","message":"no such template"}'', None)\<rparr>
      = APIErr \<lparr>APIError.StatusCode = 404, ErrorCode = ''NotFound'',
           APIError.Message = ''no such template'', APIError.Details = JNull\<rparr>\<close>
  using
    parseErrorResponse_cases [of demo_client
      \<open>\<lparr>StatusCode = 429, Status = ''429 Too Many Requests'',
         Header = [''Retry-After'' \<mapsto> [''5'']],
         Body = (''{"error":"RateLimited","message":"slow down"}'', None)\<rparr>\<close>]
    parseErrorResponse_cases [of demo_client
      \<open>\<lparr>StatusCode = 429, Status = ''429 Too Many Requests'',
         Header = Map.empty,
         Body = (''{"error":"RateLimited","message":"slow down"}'', None)\<rparr>\<close>]
    parseErrorResponse_cases [of demo_client
      \<open>\<lparr>StatusCode = 429, Status = ''429 Too Many Requests'',
         Header = [''Retry-After'' \<mapsto> [''abc'']],
         Body = (''{"error":"RateLimited","message":"slow down"}'', None)\<rparr>\<close>]
    parseErrorResponse_cases [of demo_client
      \<open>\<lparr>StatusCode = 429, Status = ''429 Too Many Requests'',
         Header = [''Retry-After'' \<mapsto> [''99999999999999999999abc'']],
         Body = (''{"error":"RateLimited","message":"slow down"}'', None)\<rparr>\<close>]
    parseErrorResponse_cases [of demo_client
      \<open>\<lparr>StatusCode = 429, Status = ''429 Too Many Requests'',
         Header = [''Retry-After'' \<mapsto> [''-99999999999999999999 seconds'']],
         Body = (''{"error":"RateLimited","message":"slow down"}'', None)\<rparr>\<close>]
    parseErrorResponse_cases [of demo_client
      \<open>\<lparr>StatusCode = 404, Status = ''404 Not Found'', Header = Map.empty,
         Body = (''{"error":"NotFound","message":"no such template"}'', None)\<rparr>\<close>]
  by (simp add: Unmarshal_examples Header_Get_def canonical_keys Atoi_def IntSize_def
        ParseInt_examples ParseInt_empty)

text \<open>
  Claim C5 as stated fails: \<open>Retry-After: 9223372036854775808\<close> cannot be parsed as
  an \<open>int\<close> (\<open>Atoi\<close> reports a range error), and the rate-limit error carries
  \<open>9223372036854775807\<close>, not 0.
\<close>

theorem retry_after_out_of_range_counterexample:
  \<open>snd (Atoi ''9223372036854775808'') = Some ErrRange
   \<and> parseErrorResponse demo_client
        \<lparr>StatusCode = 429, Status = ''429 Too Many Requests'',
         Header = [''Retry-After'' \<mapsto> [''9223372036854775808'']],
         Body = (''{"error":"RateLimited","message":"slow down"}'', None)\<rparr>
      = RateLimitError \<lparr>APIError.StatusCode = 429, ErrorCode = ''RateLimited'',
           APIError.Message = ''slow down'', APIError.Details = JNull\<rparr>
          9223372036854775807\<close>
  by (simp add: parseErrorResponse_def ReadAll_def json_eval Header_Get_def
      canonical_keys strconv_eval)

subsection \<open>Successful responses\<close>

text \<open>
  What \<open>Generate\<close> builds from a 200 response whose body was read without an error.
\<close>

lemma read_response_ok:
  assumes "Response.StatusCode resp = 200" and "snd (Response.Body resp) = None"
  shows "fst (read_response c resp) =
     Inr \<lparr>PDF = fst (Response.Body resp),
          GenerateResponse.Filename =
            (if length (FindStringSubmatch filename_re
                  (Header_Get (Response.Header resp) ''Content-Disposition'')) > 1
             then FindStringSubmatch filename_re
                    (Header_Get (Response.Header resp) ''Content-Disposition'') ! 1
             else ''document.pdf''),
          GenerationTimeMs =
            fst (ParseInt (Header_Get (Response.Header resp) ''X-Generation-Time-Ms'') 64),
          ContentLength =
            (if fst (ParseInt (Header_Get (Response.Header resp) ''Content-Length'') 64) = 0
             then int (length (fst (Response.Body resp)))
             else fst (ParseInt (Header_Get (Response.Header resp) ''Content-Length'') 64))\<rparr>"
  using assms by (simp add: read_response_def ReadAll_def Let_def)

text \<open>
  The filename pattern has one capture group, so a match is the pair of the whole match
  and the group, and no match is the empty list.
\<close>

lemma NumSubexp_literal: "NumSubexp (literal s) = 0"
  by (induction s) simp_all

lemma NumSubexp_filename_re: "NumSubexp filename_re = 1"
  by (simp add: filename_re_def NumSubexp_literal)

lemma FindStringSubmatch_shape:
  "FindStringSubmatch filename_re s = []
   \<or> (\<exists>whole group1. FindStringSubmatch filename_re s = [whole, group1])"
  by (simp add: FindStringSubmatch_def NumSubexp_filename_re split: option.splits)

lemma submatch_choice:
  "(if length (FindStringSubmatch filename_re s) > 1 then FindStringSubmatch filename_re s ! 1
    else ''document.pdf'')
   = (case FindStringSubmatch filename_re s of
        whole # group1 # rest \<Rightarrow> group1
      | _ \<Rightarrow> ''document.pdf'')"
  using FindStringSubmatch_shape [of s] by auto

lemma no_match_in_empty: "FindStringSubmatch filename_re [] = []"
  by (simp add: FindStringSubmatch_def filename_re_def match_here_def)

lemma invoice_match:
  \<open>FindStringSubmatch filename_re ''attachment; filename="invoice.pdf"''
     = [''filename="invoice.pdf"'', ''invoice.pdf'']\<close>
  by (simp add: FindStringSubmatch_def filename_re_def match_here_def)

text \<open>
  Claim C1. A 200 response whose \<open>Content-Disposition\<close> header is
  \<open>attachment; filename="invoice.pdf"\<close> and whose body is the bytes \<open>B\<close> gives a
  result with the filename \<open>invoice.pdf\<close> and the payload \<open>B\<close>, whatever its other
  headers are; the content length of that result is \<open>len(B)\<close> when the
  \<open>Content-Length\<close> header is absent and when it is \<open>0\<close>.
\<close>

theorem invoice_response:
  assumes "received w c ctx templateID request = Some (Inr resp)"
    and "Response.StatusCode resp = 200"
    and "Response.Body resp = (B, None)"
    and \<open>Header_Get (Response.Header resp) ''Content-Disposition''
           = ''attachment; filename="invoice.pdf"''\<close>
  shows "\<exists>r. fst (Generate w c ctx templateID request) = Inr r
           \<and> GenerateResponse.Filename r = ''invoice.pdf''
           \<and> PDF r = B
           \<and> (Response.Header resp ''Content-Length'' = None
                \<or> Header_Get (Response.Header resp) ''Content-Length'' = ''0''
              \<longrightarrow> ContentLength r = int (length B))"
proof -
  have "Response.Header resp ''Content-Length'' = None
        \<or> Header_Get (Response.Header resp) ''Content-Length'' = ''0''
      \<Longrightarrow> fst (ParseInt (Header_Get (Response.Header resp) ''Content-Length'') 64) = 0"
    by (auto simp: Header_Get_def canonical_keys ParseInt_empty ParseInt_zero)
  with assms(2-4) read_response_ok [of resp c] Generate_received [OF assms(1)]
  show ?thesis by (auto simp: invoice_match ParseInt_zero)
qed

text \<open>
  The response of claim C1 with \<open>Content-Length: 0\<close>, without that header, and with
  \<open>Content-Length: 1234\<close>, where filename and payload are the same and the content
  length is the header's.
\<close>

theorem invoice_response_witness:
  \<open>fst (Generate
      (demo_world (Inr \<lparr>Response.StatusCode = 200, Status = ''200 OK'',
          Response.Header = [''Content-Disposition'' \<mapsto> [''attachment; filename="invoice.pdf"''],
                             ''Content-Length'' \<mapsto> [''0'']],
          Response.Body = (''%PDF-1.7'', None)\<rparr>))
      demo_client (Some \<lparr>Err = None\<rparr>) ''t'' None)
    = Inr \<lparr>PDF = ''%PDF-1.7'', GenerateResponse.Filename = ''invoice.pdf'',
            GenerationTimeMs = GenerationTimeMs (projr (fst (Generate
      (demo_world (Inr \<lparr>Response.StatusCode = 200, Status = ''200 OK'',
          Response.Header = [''Content-Disposition'' \<mapsto> [''attachment; filename="invoice.pdf"''],
                             ''Content-Length'' \<mapsto> [''0'']],
          Response.Body = (''%PDF-1.7'', None)\<rparr>))
      demo_client (Some \<lparr>Err = None\<rparr>) ''t'' None))),
            ContentLength = 8\<rparr>
   \<and> fst (Generate
      (demo_world (Inr \<lparr>Response.StatusCode = 200, Status = ''200 OK'',
          Response.Header = [''Content-Disposition'' \<mapsto> [''attachment; filename="invoice.pdf"'']],
          Response.Body = (''%PDF-1.7'', None)\<rparr>))
      demo_client (Some \<lparr>Err = None\<rparr>) ''t'' None)
    = Inr \<lparr>PDF = ''%PDF-1.7'', GenerateResponse.Filename = ''invoice.pdf'',
            GenerationTimeMs = GenerationTimeMs (projr (fst (Generate
      (demo_world (Inr \<lparr>Response.StatusCode = 200, Status = ''200 OK'',
          Response.Header = [''Content-Disposition'' \<mapsto> [''attachment; filename="invoice.pdf"'']],
          Response.Body = (''%PDF-1.7'', None)\<rparr>))
      demo_client (Some \<lparr>Err = None\<rparr>) ''t'' None))),
            ContentLength = 8\<rparr>
   \<and> GenerateResponse.Filename (projr (fst (Generate
      (demo_world (Inr \<lparr>Response.StatusCode = 200, Status = ''200 OK'',
          Response.Header = [''Content-Disposition'' \<mapsto> [''attachment; filename="invoice.pdf"''],
                             ''Content-Length'' \<mapsto> [''1234'']],
          Response.Body = (''%PDF-1.7'', None)\<rparr>))
      demo_client (Some \<lparr>Err = None\<rparr>) ''t'' None))) = ''invoice.pdf''
   \<and> PDF (projr (fst (Generate
      (demo_world (Inr \<lparr>Response.StatusCode = 200, Status = ''200 OK'',
          Response.Header = [''Content-Disposition'' \<mapsto> [''attachment; filename="invoice.pdf"''],
                             ''Content-Length'' \<mapsto> [''1234'']],
          Response.Body = (''%PDF-1.7'', None)\<rparr>))
      demo_client (Some \<lparr>Err = None\<rparr>) ''t'' None))) = ''%PDF-1.7''\<close>
  using invoice_response [OF received_demo, of
      \<open>\<lparr>Response.StatusCode = 200, Status = ''200 OK'',
          Response.Header = [''Content-Disposition'' \<mapsto> [''attachment; filename="invoice.pdf"''],
                             ''Content-Length'' \<mapsto> [''0'']],
          Response.Body = (''%PDF-1.7'', None)\<rparr>\<close> "''%PDF-1.7''" None]
    invoice_response [OF received_demo, of
      \<open>\<lparr>Response.StatusCode = 200, Status = ''200 OK'',
          Response.Header = [''Content-Disposition'' \<mapsto> [''attachment; filename="invoice.pdf"'']],
          Response.Body = (''%PDF-1.7'', None)\<rparr>\<close> "''%PDF-1.7''" None]
    invoice_response [OF received_demo, of
      \<open>\<lparr>Response.StatusCode = 200, Status = ''200 OK'',
          Response.Header = [''Content-Disposition'' \<mapsto> [''attachment; filename="invoice.pdf"''],
                             ''Content-Length'' \<mapsto> [''1234'']],
          Response.Body = (''%PDF-1.7'', None)\<rparr>\<close> "''%PDF-1.7''" None]
  by (auto simp: Header_Get_def canonical_keys)

text \<open>
  Claim C2. The filename of a successful result is the first capture group of the first
  match of the filename pattern in the \<open>Content-Disposition\<close> header, and it is
  \<open>document.pdf\<close> when the header is absent and when the pattern matches nowhere.
\<close>

theorem filename_from_content_disposition:
  assumes "received w c ctx templateID request = Some (Inr resp)"
    and "Response.StatusCode resp = 200"
    and "snd (Response.Body resp) = None"
  shows "\<exists>r. fst (Generate w c ctx templateID request) = Inr r
     \<and> GenerateResponse.Filename r =
         (case FindStringSubmatch filename_re
                 (Header_Get (Response.Header resp) ''Content-Disposition'') of
            whole # group1 # rest \<Rightarrow> group1
          | _ \<Rightarrow> ''document.pdf'')
     \<and> (Response.Header resp ''Content-Disposition'' = None
          \<longrightarrow> GenerateResponse.Filename r = ''document.pdf'')
     \<and> (FindStringSubmatch filename_re
            (Header_Get (Response.Header resp) ''Content-Disposition'') = []
          \<longrightarrow> GenerateResponse.Filename r = ''document.pdf'')"
proof -
  have "Response.Header resp ''Content-Disposition'' = None
        \<Longrightarrow> Header_Get (Response.Header resp) ''Content-Disposition'' = []"
    by (simp add: Header_Get_def canonical_keys)
  then have absent: "Response.Header resp ''Content-Disposition'' = None
        \<Longrightarrow> FindStringSubmatch filename_re
              (Header_Get (Response.Header resp) ''Content-Disposition'') = []"
    by (simp add: no_match_in_empty)
  have "fst (Generate w c ctx templateID request) = fst (read_response c resp)"
    by (rule Generate_received [OF assms(1)])
  with read_response_ok [OF assms(2,3), of c, unfolded submatch_choice] absent
  show ?thesis
    by (cases "Response.Header resp ''Content-Disposition''") simp_all
qed

theorem filename_from_content_disposition_witness:
  \<open>GenerateResponse.Filename (projr (fst (Generate
      (demo_world (Inr \<lparr>Response.StatusCode = 200, Status = ''200 OK'',
          Response.Header = [''Content-Disposition'' \<mapsto> [''inline; filename=report 7.pdf; size=3'']],
          Response.Body = (''PDF'', None)\<rparr>))
      demo_client (Some \<lparr>Err = None\<rparr>) ''t'' None))) = ''report 7.pdf''
   \<and> GenerateResponse.Filename (projr (fst (Generate
      (demo_world (Inr \<lparr>Response.StatusCode = 200, Status = ''200 OK'',
          Response.Header = [''Content-Disposition'' \<mapsto> [''attachment'']],
          Response.Body = (''PDF'', None)\<rparr>))
      demo_client (Some \<lparr>Err = None\<rparr>) ''t'' None))) = ''document.pdf''
   \<and> GenerateResponse.Filename (projr (fst (Generate
      (demo_world (Inr \<lparr>Response.StatusCode = 200, Status = ''200 OK'',
          Response.Header = Map.empty,
          Response.Body = (''PDF'', None)\<rparr>))
      demo_client (Some \<lparr>Err = None\<rparr>) ''t'' None))) = ''document.pdf''\<close>
  using filename_from_content_disposition [OF received_demo, of
      \<open>\<lparr>Response.StatusCode = 200, Status = ''200 OK'',
          Response.Header = [''Content-Disposition'' \<mapsto> [''inline; filename=report 7.pdf; size=3'']],
          Response.Body = (''PDF'', None)\<rparr>\<close> None]
    filename_from_content_disposition [OF received_demo, of
      \<open>\<lparr>Response.StatusCode = 200, Status = ''200 OK'',
          Response.Header = [''Content-Disposition'' \<mapsto> [''attachment'']],
          Response.Body = (''PDF'', None)\<rparr>\<close> None]
    filename_from_content_disposition [OF received_demo, of
      \<open>\<lparr>Response.StatusCode = 200, Status = ''200 OK'',
          Response.Header = Map.empty,
          Response.Body = (''PDF'', None)\<rparr>\<close> None]
  by (auto simp: Header_Get_def canonical_keys FindStringSubmatch_def filename_re_def
        match_here_def)

text \<open>
  Claim C3, as the code has it. The content length of a successful result is the value
  \<open>strconv.ParseInt\<close> returns for the \<open>Content-Length\<close> header, whose error is
  discarded, when that value is not zero, and the payload's byte length when it is zero.
  Whenever \<open>ParseInt\<close> reports a syntax error, as it does for an absent header, the
  value is zero and the payload's length is used; whenever it reports a range error the
  value is the nearest bound of \<open>int64\<close>, which is kept.
\<close>

theorem content_length_fallback:
  assumes "received w c ctx templateID request = Some (Inr resp)"
    and "Response.StatusCode resp = 200"
    and "snd (Response.Body resp) = None"
  shows "\<exists>r. fst (Generate w c ctx templateID request) = Inr r
     \<and> ContentLength r =
         (if fst (ParseInt (Header_Get (Response.Header resp) ''Content-Length'') 64) = 0
          then int (length (fst (Response.Body resp)))
          else fst (ParseInt (Header_Get (Response.Header resp) ''Content-Length'') 64))
     \<and> (snd (ParseInt (Header_Get (Response.Header resp) ''Content-Length'') 64)
            = Some ErrSyntax
          \<longrightarrow> ContentLength r = int (length (fst (Response.Body resp))))
     \<and> (Response.Header resp ''Content-Length'' = None
          \<longrightarrow> snd (ParseInt (Header_Get (Response.Header resp) ''Content-Length'') 64)
                = Some ErrSyntax
              \<and> ContentLength r = int (length (fst (Response.Body resp))))
     \<and> (snd (ParseInt (Header_Get (Response.Header resp) ''Content-Length'') 64)
            = Some ErrRange
          \<longrightarrow> ContentLength r
                = fst (ParseInt (Header_Get (Response.Header resp) ''Content-Length'') 64)
              \<and> ContentLength r \<in> {9223372036854775807, - 9223372036854775808})"
proof -
  let ?p = "ParseInt (Header_Get (Response.Header resp) ''Content-Length'') 64"
  have syn: "snd ?p = Some ErrSyntax \<Longrightarrow> fst ?p = 0"
    by (rule ParseInt_syntax)
  have absent: "Response.Header resp ''Content-Length'' = None \<Longrightarrow> ?p = (0, Some ErrSyntax)"
    by (simp add: Header_Get_def canonical_keys ParseInt_empty)
  have rng: "snd ?p = Some ErrRange
      \<Longrightarrow> fst ?p = 9223372036854775807 \<or> fst ?p = - 9223372036854775808"
    using ParseInt_range [of "Header_Get (Response.Header resp) ''Content-Length''" 64]
    by simp
  have "fst (Generate w c ctx templateID request) = fst (read_response c resp)"
    by (rule Generate_received [OF assms(1)])
  with read_response_ok [OF assms(2,3), of c] syn rng absent
  show ?thesis by auto
qed

text \<open>
  Responses with the headers \<open>Content-Length: abc\<close>, none, \<open>0\<close>, \<open>1234\<close>, and three
  values out of the range of \<open>int64\<close>, two of them followed by other text.
\<close>

theorem content_length_fallback_witness:
  "ContentLength (projr (fst (Generate
      (demo_world (Inr \<lparr>Response.StatusCode = 200, Status = ''200 OK'',
          Response.Header = [''Content-Length'' \<mapsto> [''abc'']],
          Response.Body = (''%PDF-1.7'', None)\<rparr>))
      demo_client (Some \<lparr>Err = None\<rparr>) ''t'' None))) = 8
   \<and> ContentLength (projr (fst (Generate
      (demo_world (Inr \<lparr>Response.StatusCode = 200, Status = ''200 OK'',
          Response.Header = Map.empty,
          Response.Body = (''%PDF-1.7'', None)\<rparr>))
      demo_client (Some \<lparr>Err = None\<rparr>) ''t'' None))) = 8
   \<and> ContentLength (projr (fst (Generate
      (demo_world (Inr \<lparr>Response.StatusCode = 200, Status = ''200 OK'',
          Response.Header = [''Content-Length'' \<mapsto> [''0'']],
          Response.Body = (''%PDF-1.7'', None)\<rparr>))
      demo_client (Some \<lparr>Err = None\<rparr>) ''t'' None))) = 8
   \<and> ContentLength (projr (fst (Generate
      (demo_world (Inr \<lparr>Response.StatusCode = 200, Status = ''200 OK'',
          Response.Header = [''Content-Length'' \<mapsto> [''1234'']],
          Response.Body = (''%PDF-1.7'', None)\<rparr>))
      demo_client (Some \<lparr>Err = None\<rparr>) ''t'' None))) = 1234
   \<and> ContentLength (projr (fst (Generate
      (demo_world (Inr \<lparr>Response.StatusCode = 200, Status = ''200 OK'',
          Response.Header = [''Content-Length'' \<mapsto> [''99999999999999999999'']],
          Response.Body = (''%PDF-1.7'', None)\<rparr>))
      demo_client (Some \<lparr>Err = None\<rparr>) ''t'' None))) = 9223372036854775807
   \<and> ContentLength (projr (fst (Generate
      (demo_world (Inr \<lparr>Response.StatusCode = 200, Status = ''200 OK'',
          Response.Header = [''Content-Length'' \<mapsto> [''99999999999999999999abc'']],
          Response.Body = (''%PDF-1.7'', None)\<rparr>))
      demo_client (Some \<lparr>Err = None\<rparr>) ''t'' None))) = 9223372036854775807
   \<and> ContentLength (projr (fst (Generate
      (demo_world (Inr \<lparr>Response.StatusCode = 200, Status = ''200 OK'',
          Response.Header = [''Content-Length'' \<mapsto> [''-99999999999999999999 seconds'']],
          Response.Body = (''%PDF-1.7'', None)\<rparr>))
      demo_client (Some \<lparr>Err = None\<rparr>) ''t'' None))) = - 9223372036854775808"
  using content_length_fallback [OF received_demo, of
      \<open>\<lparr>Response.StatusCode = 200, Status = ''200 OK'',
          Response.Header = [''Content-Length'' \<mapsto> [''abc'']],
          Response.Body = (''%PDF-1.7'', None)\<rparr>\<close> None]
    content_length_fallback [OF received_demo, of
      \<open>\<lparr>Response.StatusCode = 200, Status = ''200 OK'',
          Response.Header = Map.empty,
          Response.Body = (''%PDF-1.7'', None)\<rparr>\<close> None]
    content_length_fallback [OF received_demo, of
      \<open>\<lparr>Response.StatusCode = 200, Status = ''200 OK'',
          Response.Header = [''Content-Length'' \<mapsto> [''0'']],
          Response.Body = (''%PDF-1.7'', None)\<rparr>\<close> None]
    content_length_fallback [OF received_demo, of
      \<open>\<lparr>Response.StatusCode = 200, Status = ''200 OK'',
          Response.Header = [''Content-Length'' \<mapsto> [''1234'']],
          Response.Body = (''%PDF-1.7'', None)\<rparr>\<close> None]
    content_length_fallback [OF received_demo, of
      \<open>\<lparr>Response.StatusCode = 200, Status = ''200 OK'',
          Response.Header = [''Content-Length'' \<mapsto> [''99999999999999999999'']],
          Response.Body = (''%PDF-1.7'', None)\<rparr>\<close> None]
    content_length_fallback [OF received_demo, of
      \<open>\<lparr>Response.StatusCode = 200, Status = ''200 OK'',
          Response.Header = [''Content-Length'' \<mapsto> [''99999999999999999999abc'']],
          Response.Body = (''%PDF-1.7'', None)\<rparr>\<close> None]
    content_length_fallback [OF received_demo, of
      \<open>\<lparr>Response.StatusCode = 200, Status = ''200 OK'',
          Response.Header = [''Content-Length'' \<mapsto> [''-99999999999999999999 seconds'']],
          Response.Body = (''%PDF-1.7'', None)\<rparr>\<close> None]
  by (clarsimp simp: Header_Get_def canonical_keys ParseInt_examples ParseInt_zero
        ParseInt_empty)

text \<open>
  The header \<open>Content-Length: abc\<close> fails to parse, and the result carries the length
  of the eight payload bytes.
\<close>

theorem content_length_syntax_error_counterexample:
  "snd (ParseInt ''abc'' 64) = Some ErrSyntax
   \<and> fst (Generate
      (demo_world (Inr \<lparr>Response.StatusCode = 200, Status = ''200 OK'',
          Response.Header = [''Content-Length'' \<mapsto> [''abc'']],
          Response.Body = (''%PDF-1.7'', None)\<rparr>))
      demo_client (Some \<lparr>Err = None\<rparr>) ''t'' None)
     = Inr \<lparr>PDF = ''%PDF-1.7'', GenerateResponse.Filename = ''document.pdf'',
             GenerationTimeMs = 0, ContentLength = 8\<rparr>"
  by (simp add: Generate_received [OF received_demo] read_response_def ReadAll_def Let_def
        Header_Get_def canonical_keys ParseInt_examples ParseInt_empty no_match_in_empty)

subsection \<open>Error responses\<close>

text \<open>A response with a status other than 200 is handed to \<open>parseErrorResponse\<close>.\<close>

lemma Generate_error_response:
  assumes "received w c ctx templateID request = Some (Inr resp)"
    and "Response.StatusCode resp \<noteq> 200"
  shows "fst (Generate w c ctx templateID request) = Inl (parseErrorResponse c resp)"
  using Generate_received [OF assms(1)] assms(2) by (simp add: read_response_def)

text \<open>
  Claim C6. When the body of a non-200 response is not valid JSON, the error
  \<open>parseErrorResponse\<close> returns carries the response's status code, the code
  \<open>Unknown Error\<close>, the status line as its message and no details; it is that API
  error itself unless the status is 429, and it is the error \<open>Generate\<close> returns.
\<close>

theorem invalid_json_fallback:
  assumes "Response.StatusCode resp \<noteq> 200"
    and "parse_json (fst (Response.Body resp)) = None"
  shows "api_error_of (parseErrorResponse c resp)
       = Some \<lparr>APIError.StatusCode = Response.StatusCode resp,
                ErrorCode = ''Unknown Error'',
                APIError.Message = Status resp,
                APIError.Details = JNull\<rparr>
     \<and> (Response.StatusCode resp \<noteq> 429 \<longrightarrow>
          parseErrorResponse c resp
            = APIErr \<lparr>APIError.StatusCode = Response.StatusCode resp,
                      ErrorCode = ''Unknown Error'',
                      APIError.Message = Status resp,
                      APIError.Details = JNull\<rparr>)
     \<and> (received w c ctx templateID request = Some (Inr resp) \<longrightarrow>
          fst (Generate w c ctx templateID request) = Inl (parseErrorResponse c resp))"
  using assms
  by (simp add: parseErrorResponse_def ReadAll_def Unmarshal_def Let_def
        Generate_error_response)

theorem invalid_json_fallback_witness:
  "parse_json ''<html>'' = None
   \<and> fst (Generate
      (demo_world (Inr \<lparr>Response.StatusCode = 502, Status = ''502 Bad Gateway'',
          Response.Header = Map.empty, Response.Body = (''<html>'', None)\<rparr>))
      demo_client (Some \<lparr>Err = None\<rparr>) ''t'' None)
     = Inl (APIErr \<lparr>APIError.StatusCode = 502, ErrorCode = ''Unknown Error'',
                      APIError.Message = ''502 Bad Gateway'', APIError.Details = JNull\<rparr>)
   \<and> api_error_of (parseErrorResponse demo_client
        \<lparr>Response.StatusCode = 429, Status = ''429 Too Many Requests'',
          Response.Header = Map.empty, Response.Body = (''{'', None)\<rparr>)
     = Some \<lparr>APIError.StatusCode = 429, ErrorCode = ''Unknown Error'',
              APIError.Message = ''429 Too Many Requests'', APIError.Details = JNull\<rparr>"
proof -
  have a: "parse_json ''<html>'' = None" and b: "parse_json ''{'' = None"
    by (simp_all add: json_eval is_digit_def)
  from invalid_json_fallback [of
      "\<lparr>Response.StatusCode = 502, Status = ''502 Bad Gateway'',
          Response.Header = Map.empty, Response.Body = (''<html>'', None)\<rparr>"
      demo_client
      "demo_world (Inr \<lparr>Response.StatusCode = 502, Status = ''502 Bad Gateway'',
          Response.Header = Map.empty, Response.Body = (''<html>'', None)\<rparr>)"
      "Some \<lparr>Err = None\<rparr>" "''t''" None]
    invalid_json_fallback [of
      "\<lparr>Response.StatusCode = 429, Status = ''429 Too Many Requests'',
          Response.Header = Map.empty, Response.Body = (''{'', None)\<rparr>"
      demo_client
      "demo_world (Inr \<lparr>Response.StatusCode = 429, Status = ''429 Too Many Requests'',
          Response.Header = Map.empty, Response.Body = (''{'', None)\<rparr>)"
      "Some \<lparr>Err = None\<rparr>" "''t''" None]
    a b
  show ?thesis by (simp add: received_demo)
qed

text \<open>
  Claim C9. The error made from a 404 response satisfies \<open>IsNotFoundError\<close> and none
  of the five other category predicates, and on any \<open>APIError\<close> at most one of the six
  predicates holds.
\<close>

theorem not_found_category:
  "(Response.StatusCode resp = 404 \<longrightarrow>
      (\<exists>e. parseErrorResponse c resp = APIErr e
         \<and> IsNotFoundError e
         \<and> \<not> IsValidationError e \<and> \<not> IsAuthenticationError e
         \<and> \<not> IsForbiddenError e \<and> \<not> IsRateLimitError e \<and> \<not> IsServerError e
         \<and> (received w c ctx templateID request = Some (Inr resp) \<longrightarrow>
              fst (Generate w c ctx templateID request) = Inl (APIErr e))))
   \<and> length (filter (\<lambda>holds. holds e')
        [IsValidationError, IsAuthenticationError, IsForbiddenError,
         IsNotFoundError, IsRateLimitError, IsServerError]) \<le> 1"
proof -
  have "Response.StatusCode resp = 404 \<Longrightarrow>
      received w c ctx templateID request = Some (Inr resp) \<Longrightarrow>
      fst (Generate w c ctx templateID request) = Inl (parseErrorResponse c resp)"
    by (rule Generate_error_response) simp_all
  then show ?thesis
    by (auto simp: parseErrorResponse_def Let_def IsNotFoundError_def IsValidationError_def
          IsAuthenticationError_def IsForbiddenError_def IsRateLimitError_def
          IsServerError_def)
qed

theorem not_found_category_witness:
  \<open>fst (Generate
      (demo_world (Inr \<lparr>Response.StatusCode = 404, Status = ''404 Not Found'',
          Response.Header = Map.empty,
          Response.Body = (''{"error":"NotFound","message":"no such template"}'', None)\<rparr>))
      demo_client (Some \<lparr>Err = None\<rparr>) ''t'' None)
     = Inl (APIErr \<lparr>APIError.StatusCode = 404, ErrorCode = ''NotFound'',
                      APIError.Message = ''no such template'', APIError.Details = JNull\<rparr>)
   \<and> IsNotFoundError \<lparr>APIError.StatusCode = 404, ErrorCode = ''NotFound'',
                      APIError.Message = ''no such template'', APIError.Details = JNull\<rparr>
   \<and> \<not> IsServerError \<lparr>APIError.StatusCode = 404, ErrorCode = ''NotFound'',
                      APIError.Message = ''no such template'', APIError.Details = JNull\<rparr>
   \<and> length (filter (\<lambda>holds. holds \<lparr>APIError.StatusCode = 503, ErrorCode = ''Unavailable'',
                      APIError.Message = ''try later'', APIError.Details = JNull\<rparr>)
        [IsValidationError, IsAuthenticationError, IsForbiddenError,
         IsNotFoundError, IsRateLimitError, IsServerError]) \<le> 1\<close>
proof -
  have p: \<open>parseErrorResponse demo_client
      \<lparr>Response.StatusCode = 404, Status = ''404 Not Found'',
          Response.Header = Map.empty,
          Response.Body = (''{"error":"NotFound","message":"no such template"}'', None)\<rparr>
     = APIErr \<lparr>APIError.StatusCode = 404, ErrorCode = ''NotFound'',
                      APIError.Message = ''no such template'', APIError.Details = JNull\<rparr>\<close>
    by (simp add: parseErrorResponse_def ReadAll_def json_eval)
  from not_found_category [of
      \<open>\<lparr>Response.StatusCode = 404, Status = ''404 Not Found'',
          Response.Header = Map.empty,
          Response.Body = (''{"error":"NotFound","message":"no such template"}'', None)\<rparr>\<close>
      demo_client
      \<open>demo_world (Inr \<lparr>Response.StatusCode = 404, Status = ''404 Not Found'',
          Response.Header = Map.empty,
          Response.Body = (''{"error":"NotFound","message":"no such template"}'', None)\<rparr>)\<close>
      "Some \<lparr>Err = None\<rparr>" "''t''" None
      "\<lparr>APIError.StatusCode = 503, ErrorCode = ''Unavailable'',
                      APIError.Message = ''try later'', APIError.Details = JNull\<rparr>"]
  show ?thesis
    unfolding p by (simp add: received_demo)
qed

end
